theory Spec2Isabelle
  imports Main "HOL-Library.Word" "HOL-Library.Monad_Syntax"
begin

unbundle bit_operations_syntax

section \<open>Zynq R5 remote processor driver: data model\<close>

text \<open>
  Source: \<^verbatim>\<open>drivers/remoteproc/zynqmp_r5_remoteproc.c\<close>.

  Machine types. \<^verbatim>\<open>u32\<close> is a 32-bit word. Pointers into the memory-mapped
  register windows (\<^verbatim>\<open>void __iomem *\<close>) and kernel virtual addresses are 64-bit
  words (the ZynqMP host is a 64-bit arm64 kernel), with the wrap-around of pointer
  arithmetic.
\<close>

type_synonym u32 = "32 word"
type_synonym ulong = "64 word"
type_synonym addr = "64 word"

text \<open>
  \<^verbatim>\<open>BIT(n)\<close> is the kernel's \<^verbatim>\<open>(1UL << (n))\<close>: an \<^verbatim>\<open>unsigned long\<close>.
\<close>

definition BIT :: "nat \<Rightarrow> ulong" where
  "BIT n = push_bit n 1"

text \<open>Register offset definitions for RPU.\<close>

definition RPU_GLBL_CNTL_OFFSET :: u32 where "RPU_GLBL_CNTL_OFFSET = 0x00000000"
definition RPU_0_CFG_OFFSET :: u32 where "RPU_0_CFG_OFFSET = 0x00000100"
definition RPU_1_CFG_OFFSET :: u32 where "RPU_1_CFG_OFFSET = 0x00000200"

text \<open>Boot memory bit. high for OCM, low for TCM.\<close>
definition VINITHI_BIT :: ulong where "VINITHI_BIT = BIT 2"
text \<open>CPU halt bit, high: processor is running. low: processor is halt.\<close>
definition nCPUHALT_BIT :: ulong where "nCPUHALT_BIT = BIT 0"
text \<open>RPU mode, high: split mode. low: lock step mode.\<close>
definition SLSPLIT_BIT :: ulong where "SLSPLIT_BIT = BIT 3"
text \<open>Clamp mode. high: split mode. low: lock step mode.\<close>
definition SLCLAMP_BIT :: ulong where "SLCLAMP_BIT = BIT 4"
text \<open>TCM mode. high: combine RPU TCMs. low: split TCM for RPU1 and RPU0.\<close>
definition TCM_COMB_BIT :: ulong where "TCM_COMB_BIT = BIT 6"

text \<open>Clock controller low power domain (CRL_APB) for RPU.\<close>

definition CPU_R5_CTRL_OFFSET :: u32 where "CPU_R5_CTRL_OFFSET = 0x00000090"
definition RST_LPD_TOP_OFFSET :: u32 where "RST_LPD_TOP_OFFSET = 0x0000023C"
definition RPU0_RESET_BIT :: ulong where "RPU0_RESET_BIT = BIT 0"

text \<open>IPI reg offsets.\<close>

definition TRIG_OFFSET :: u32 where "TRIG_OFFSET = 0x00000000"
definition OBS_OFFSET :: u32 where "OBS_OFFSET = 0x00000004"
definition ISR_OFFSET :: u32 where "ISR_OFFSET = 0x00000010"
definition IMR_OFFSET :: u32 where "IMR_OFFSET = 0x00000014"
definition IER_OFFSET :: u32 where "IER_OFFSET = 0x00000018"
definition IDR_OFFSET :: u32 where "IDR_OFFSET = 0x0000001C"
definition IPI_ALL_MASK :: u32 where "IPI_ALL_MASK = 0x0F0F0301"

text \<open>Support upto 2 RPU.\<close>
definition MAX_INSTANCES :: nat where "MAX_INSTANCES = 2"

definition DEFAULT_FIRMWARE_NAME :: string where
  "DEFAULT_FIRMWARE_NAME = ''rproc-rpu-fw''"

text \<open>
  The three static operation tables of each kind. An instance holds a pointer to one of
  them; the pointer is \<^verbatim>\<open>NULL\<close> (\<open>None\<close>) in a freshly zeroed instance.
\<close>

datatype ipi_ops_ref = Ipi_hw_ops | Ipi_smc_ops | Ipi_hvc_ops
datatype rpu_ops_ref = Rpu_hw_ops | Rpu_smc_ops | Rpu_hvc_ops

text \<open>enumerations for RPU/IPI control methods\<close>
datatype control_method = SMC | HVC | HW

text \<open>enumerations for R5 boot device\<close>
datatype rpu_bootmem = TCM | OCM

text \<open>enumerations for R5 core configurations\<close>
datatype rpu_core_conf = LOCK_STEP | SPLIT

text \<open>The two work functions \<^verbatim>\<open>INIT_WORK\<close> can bind to an instance's work item.\<close>
datatype work_func = Handle_event0 | Handle_event1

text \<open>Handles of objects owned by the surrounding kernel frameworks.\<close>
type_synonym pdev_handle = nat
type_synonym rproc_handle = nat

text \<open>
  \<^verbatim>\<open>struct zynqmp_r5_rproc_pdata\<close>: zynqmp rpu remote processor instance state.
\<close>

record zynqmp_r5_rproc_pdata =
  rproc :: "rproc_handle option"
  ipi_ops :: "ipi_ops_ref option"
  rpu_ops :: "rpu_ops_ref option"
  workqueue :: "work_func option"
  rpu_base :: addr
  crl_apb_base :: addr
  ipi_base :: addr
  rpu_mode :: rpu_core_conf
  bootmem :: rpu_bootmem
  ipi_dest_mask :: u32
  rpu_id :: u32
  vring0 :: u32

text \<open>
  What the driver does, in the order it does it: accesses to the memory-mapped registers,
  busy-wait delays, cache flushes, the binding of an instance's work item
  (\<^verbatim>\<open>INIT_WORK\<close>), the stores to the table \<^verbatim>\<open>remoteprocdev\<close>, messages
  printed at error, warning or info level, and the calls of
  \<^verbatim>\<open>zynqmp_r5_remoteproc_probe\<close> into the kernel frameworks.
\<close>

datatype event =
    Reg_read addr u32
  | Reg_write addr u32
  | Udelay nat
  | Flush_cache_all
  | Init_work work_func
  | Set_remoteprocdev nat pdev_handle
  | Pr_err string
  | Dev_err string
  | Dev_warn string
  | Dev_info string
  | Platform_set_drvdata
  | Dma_declare_coherent_memory
  | Dma_set_coherent_mask
  | Devm_ioremap_resource string
  | Devm_request_irq u32
  | Rproc_alloc string
  | Rproc_add
  | Rproc_put
  | Dma_release_declared_memory

text \<open>
  The state the driver's functions run on: the instance they are called with
  (\<^verbatim>\<open>pdata\<close>, the pointee of their \<^verbatim>\<open>struct zynqmp_r5_rproc_pdata *\<close>),
  the simulated register backing store \<open>mem\<close> (one 32-bit value per I/O address: a
  read returns what was last written), the global table \<^verbatim>\<open>remoteprocdev\<close>
  (indexed \<open>0 ..< MAX_INSTANCES\<close>) and the trace of events so far.
\<close>

record state =
  pdata :: zynqmp_r5_rproc_pdata
  mem :: "addr \<Rightarrow> u32"
  remoteprocdev :: "nat \<Rightarrow> pdev_handle option"
  trace :: "event list"

section \<open>Primitives\<close>

definition emit :: "event \<Rightarrow> state \<Rightarrow> state" where
  "emit e s = s\<lparr>trace := trace s @ [e]\<rparr>"

text \<open>
  Register access macros: \<^verbatim>\<open>readl(base + reg)\<close> and
  \<^verbatim>\<open>writel(val, base + reg)\<close>.
\<close>

definition reg_addr :: "addr \<Rightarrow> u32 \<Rightarrow> addr" where
  "reg_addr base reg = base + ucast reg"

definition reg_read :: "addr \<Rightarrow> u32 \<Rightarrow> state \<Rightarrow> u32 \<times> state" where
  "reg_read base reg s =
     (let v = mem s (reg_addr base reg)
      in (v, emit (Reg_read (reg_addr base reg) v) s))"

definition reg_write :: "addr \<Rightarrow> u32 \<Rightarrow> u32 \<Rightarrow> state \<Rightarrow> state" where
  "reg_write base reg val s =
     emit (Reg_write (reg_addr base reg) val)
       (s\<lparr>mem := (mem s)(reg_addr base reg := val)\<rparr>)"

definition udelay :: "nat \<Rightarrow> state \<Rightarrow> state" where
  "udelay n s = emit (Udelay n) s"

definition flush_cache_all :: "state \<Rightarrow> state" where
  "flush_cache_all s = emit Flush_cache_all s"

text \<open>
  \<^verbatim>\<open>pr_debug\<close> and \<^verbatim>\<open>dev_dbg\<close> expand to nothing unless \<^verbatim>\<open>DEBUG\<close> is
  defined, and the file does not define it: they leave the state as it is.
  \<^verbatim>\<open>pr_err\<close> prints; the message is recorded by the name of the calling function
  (its \<^verbatim>\<open>__func__\<close> argument).
\<close>

definition pr_debug :: "string \<Rightarrow> state \<Rightarrow> state" where
  "pr_debug msg s = s"

definition dev_dbg :: "string \<Rightarrow> state \<Rightarrow> state" where
  "dev_dbg msg s = s"

definition pr_err :: "string \<Rightarrow> state \<Rightarrow> state" where
  "pr_err msg s = emit (Pr_err msg) s"

text \<open>
  \<^verbatim>\<open>tmp |= b\<close> and \<^verbatim>\<open>tmp &= ~b\<close> for a \<^verbatim>\<open>u32 tmp\<close> and an
  \<^verbatim>\<open>unsigned long b\<close>: \<open>tmp\<close> is widened, the operation is done on
  \<^verbatim>\<open>unsigned long\<close>, and the result is truncated on assignment.
\<close>

definition or_assign :: "u32 \<Rightarrow> ulong \<Rightarrow> u32" where
  "or_assign tmp b = ucast ((ucast tmp :: ulong) OR b)"

definition and_not_assign :: "u32 \<Rightarrow> ulong \<Rightarrow> u32" where
  "and_not_assign tmp b = ucast ((ucast tmp :: ulong) AND NOT b)"

section \<open>RPU operations, direct hardware access\<close>

definition hw_r5_boot_dev :: "state \<Rightarrow> state" where
  "hw_r5_boot_dev s0 =
     (let offset = RPU_1_CFG_OFFSET;
          s1 = pr_debug ''hw_r5_boot_dev'' s0;
          offset = (if rpu_id (pdata s1) = 0 then RPU_0_CFG_OFFSET else offset);
          (tmp, s2) = reg_read (rpu_base (pdata s1)) offset s1;
          tmp = (if bootmem (pdata s2) = OCM
                 then or_assign tmp VINITHI_BIT
                 else and_not_assign tmp VINITHI_BIT)
      in reg_write (rpu_base (pdata s2)) offset tmp s2)"

text \<open>
  The shift \<^verbatim>\<open>RPU0_RESET_BIT << pdata->rpu_id\<close> is defined in C for a count below
  the width of \<^verbatim>\<open>unsigned long\<close>; the probe only ever stores 0 or 1 in
  \<^verbatim>\<open>rpu_id\<close>.
\<close>

definition hw_r5_reset :: "bool \<Rightarrow> state \<Rightarrow> state" where
  "hw_r5_reset do_reset s0 =
     (let s1 = pr_debug ''hw_r5_reset'' s0;
          (tmp, s2) = reg_read (crl_apb_base (pdata s1)) RST_LPD_TOP_OFFSET s1;
          tmp = (if do_reset
                 then or_assign tmp (push_bit (unat (rpu_id (pdata s2))) RPU0_RESET_BIT)
                 else and_not_assign tmp (push_bit (unat (rpu_id (pdata s2))) RPU0_RESET_BIT))
      in reg_write (crl_apb_base (pdata s2)) RST_LPD_TOP_OFFSET tmp s2)"

definition hw_r5_halt :: "bool \<Rightarrow> state \<Rightarrow> state" where
  "hw_r5_halt do_halt s0 =
     (let offset = RPU_1_CFG_OFFSET;
          s1 = pr_debug ''hw_r5_halt'' s0;
          offset = (if rpu_id (pdata s1) = 0 then RPU_0_CFG_OFFSET else offset);
          (tmp, s2) = reg_read (rpu_base (pdata s1)) offset s1;
          tmp = (if do_halt
                 then and_not_assign tmp nCPUHALT_BIT
                 else or_assign tmp nCPUHALT_BIT)
      in reg_write (rpu_base (pdata s2)) offset tmp s2)"

definition hw_r5_core_config :: "state \<Rightarrow> state" where
  "hw_r5_core_config s0 =
     (let s1 = pr_debug ''hw_r5_core_config'' s0;
          (tmp, s2) = reg_read (rpu_base (pdata s1)) 0 s1;
          tmp = (if rpu_mode (pdata s2) = SPLIT
                 then and_not_assign
                        (and_not_assign (or_assign tmp SLSPLIT_BIT) TCM_COMB_BIT)
                        SLCLAMP_BIT
                 else or_assign
                        (or_assign (and_not_assign tmp SLSPLIT_BIT) TCM_COMB_BIT)
                        SLCLAMP_BIT)
      in reg_write (rpu_base (pdata s2)) 0 tmp s2)"

section \<open>RPU operations, placeholders for the secure monitor and the hypervisor\<close>

definition smc_r5_boot_dev :: "state \<Rightarrow> state" where
  "smc_r5_boot_dev s = pr_err ''smc_r5_boot_dev'' s"

definition smc_r5_reset :: "bool \<Rightarrow> state \<Rightarrow> state" where
  "smc_r5_reset do_reset s = pr_err ''smc_r5_reset'' s"

definition smc_r5_halt :: "bool \<Rightarrow> state \<Rightarrow> state" where
  "smc_r5_halt do_halt s = pr_err ''smc_r5_halt'' s"

definition smc_r5_core_config :: "state \<Rightarrow> state" where
  "smc_r5_core_config s = pr_err ''smc_r5_core_config'' s"

definition hvc_r5_boot_dev :: "state \<Rightarrow> state" where
  "hvc_r5_boot_dev s = pr_err ''hvc_r5_boot_dev'' s"

definition hvc_r5_reset :: "bool \<Rightarrow> state \<Rightarrow> state" where
  "hvc_r5_reset do_reset s = pr_err ''hvc_r5_reset'' s"

definition hvc_r5_halt :: "bool \<Rightarrow> state \<Rightarrow> state" where
  "hvc_r5_halt do_halt s = pr_err ''hvc_r5_halt'' s"

definition hvc_r5_core_config :: "state \<Rightarrow> state" where
  "hvc_r5_core_config s = pr_err ''hvc_r5_core_config'' s"

text \<open>
  The tables \<^verbatim>\<open>rpu_hw_ops\<close>, \<^verbatim>\<open>rpu_smc_ops\<close> and \<^verbatim>\<open>rpu_hvc_ops\<close>: one
  function per member, selecting the entry of the table referred to.
\<close>

fun rpu_ops_bootdev :: "rpu_ops_ref \<Rightarrow> state \<Rightarrow> state" where
  "rpu_ops_bootdev Rpu_hw_ops = hw_r5_boot_dev"
| "rpu_ops_bootdev Rpu_smc_ops = smc_r5_boot_dev"
| "rpu_ops_bootdev Rpu_hvc_ops = hvc_r5_boot_dev"

fun rpu_ops_core_conf :: "rpu_ops_ref \<Rightarrow> state \<Rightarrow> state" where
  "rpu_ops_core_conf Rpu_hw_ops = hw_r5_core_config"
| "rpu_ops_core_conf Rpu_smc_ops = smc_r5_core_config"
| "rpu_ops_core_conf Rpu_hvc_ops = hvc_r5_core_config"

fun rpu_ops_halt :: "rpu_ops_ref \<Rightarrow> bool \<Rightarrow> state \<Rightarrow> state" where
  "rpu_ops_halt Rpu_hw_ops = hw_r5_halt"
| "rpu_ops_halt Rpu_smc_ops = smc_r5_halt"
| "rpu_ops_halt Rpu_hvc_ops = hvc_r5_halt"

fun rpu_ops_en_reset :: "rpu_ops_ref \<Rightarrow> bool \<Rightarrow> state \<Rightarrow> state" where
  "rpu_ops_en_reset Rpu_hw_ops = hw_r5_reset"
| "rpu_ops_en_reset Rpu_smc_ops = smc_r5_reset"
| "rpu_ops_en_reset Rpu_hvc_ops = hvc_r5_reset"

section \<open>IPI operations\<close>

definition hw_clear_ipi :: "state \<Rightarrow> state" where
  "hw_clear_ipi s0 =
     (let s1 = pr_debug ''hw_clear_ipi'' s0
      in reg_write (ipi_base (pdata s1)) ISR_OFFSET (ipi_dest_mask (pdata s1)) s1)"

definition hw_ipi_reset :: "state \<Rightarrow> state" where
  "hw_ipi_reset s0 =
     (let s1 = reg_write (ipi_base (pdata s0)) IDR_OFFSET IPI_ALL_MASK s0;
          s2 = reg_write (ipi_base (pdata s1)) ISR_OFFSET IPI_ALL_MASK s1;
          s3 = udelay 10 s2
      in pr_debug ''IPI reset done'' s3)"

definition hw_set_ipi_mask :: "state \<Rightarrow> state" where
  "hw_set_ipi_mask s0 =
     (let s1 = pr_debug ''hw_set_ipi_mask'' s0
      in reg_write (ipi_base (pdata s1)) IER_OFFSET (ipi_dest_mask (pdata s1)) s1)"

definition hw_trigger_ipi :: "state \<Rightarrow> state" where
  "hw_trigger_ipi s0 =
     (let s1 = pr_debug ''hw_trigger_ipi'' s0
      in reg_write (ipi_base (pdata s1)) TRIG_OFFSET (ipi_dest_mask (pdata s1)) s1)"

definition smc_clear_ipi :: "state \<Rightarrow> state" where
  "smc_clear_ipi s = pr_err ''smc_clear_ipi'' s"

definition smc_ipi_reset :: "state \<Rightarrow> state" where
  "smc_ipi_reset s = pr_err ''smc_ipi_reset'' s"

definition smc_set_ipi_mask :: "state \<Rightarrow> state" where
  "smc_set_ipi_mask s = pr_err ''smc_set_ipi_mask'' s"

definition smc_trigger_ipi :: "state \<Rightarrow> state" where
  "smc_trigger_ipi s = pr_err ''smc_trigger_ipi'' s"

definition hvc_clear_ipi :: "state \<Rightarrow> state" where
  "hvc_clear_ipi s = pr_err ''hvc_clear_ipi'' s"

definition hvc_ipi_reset :: "state \<Rightarrow> state" where
  "hvc_ipi_reset s = pr_err ''hvc_ipi_reset'' s"

definition hvc_set_ipi_mask :: "state \<Rightarrow> state" where
  "hvc_set_ipi_mask s = pr_err ''hvc_set_ipi_mask'' s"

definition hvc_trigger_ipi :: "state \<Rightarrow> state" where
  "hvc_trigger_ipi s = pr_err ''hvc_trigger_ipi'' s"

text \<open>
  The tables \<^verbatim>\<open>ipi_hw_ops\<close>, \<^verbatim>\<open>ipi_smc_ops\<close> and \<^verbatim>\<open>ipi_hvc_ops\<close>.
\<close>

fun ipi_ops_clear :: "ipi_ops_ref \<Rightarrow> state \<Rightarrow> state" where
  "ipi_ops_clear Ipi_hw_ops = hw_clear_ipi"
| "ipi_ops_clear Ipi_smc_ops = smc_clear_ipi"
| "ipi_ops_clear Ipi_hvc_ops = hvc_clear_ipi"

fun ipi_ops_reset :: "ipi_ops_ref \<Rightarrow> state \<Rightarrow> state" where
  "ipi_ops_reset Ipi_hw_ops = hw_ipi_reset"
| "ipi_ops_reset Ipi_smc_ops = smc_ipi_reset"
| "ipi_ops_reset Ipi_hvc_ops = hvc_ipi_reset"

fun ipi_ops_set_mask :: "ipi_ops_ref \<Rightarrow> state \<Rightarrow> state" where
  "ipi_ops_set_mask Ipi_hw_ops = hw_set_ipi_mask"
| "ipi_ops_set_mask Ipi_smc_ops = smc_set_ipi_mask"
| "ipi_ops_set_mask Ipi_hvc_ops = hvc_set_ipi_mask"

fun ipi_ops_trigger :: "ipi_ops_ref \<Rightarrow> state \<Rightarrow> state" where
  "ipi_ops_trigger Ipi_hw_ops = hw_trigger_ipi"
| "ipi_ops_trigger Ipi_smc_ops = smc_trigger_ipi"
| "ipi_ops_trigger Ipi_hvc_ops = hvc_trigger_ipi"

text \<open>
  A call through an instance's table pointer, \<^verbatim>\<open>pdata->rpu_ops->f(pdata, ...)\<close> or
  \<^verbatim>\<open>pdata->ipi_ops->f(pdata)\<close>. Through a \<^verbatim>\<open>NULL\<close> pointer the kernel
  faults: the call has no result (\<open>None\<close>).
\<close>

definition call_rpu :: "(rpu_ops_ref \<Rightarrow> state \<Rightarrow> state) \<Rightarrow> state \<Rightarrow> state option" where
  "call_rpu f s = (case rpu_ops (pdata s) of None \<Rightarrow> None | Some t \<Rightarrow> Some (f t s))"

definition call_ipi :: "(ipi_ops_ref \<Rightarrow> state \<Rightarrow> state) \<Rightarrow> state \<Rightarrow> state option" where
  "call_ipi f s = (case ipi_ops (pdata s) of None \<Rightarrow> None | Some t \<Rightarrow> Some (f t s))"

definition ipi_init :: "state \<Rightarrow> state option" where
  "ipi_init s0 = do {
     let s1 = pr_debug ''ipi_init'' s0;
     s2 \<leftarrow> call_ipi ipi_ops_reset s1;
     call_ipi ipi_ops_set_mask s2
   }"

section \<open>The remoteproc callbacks\<close>

text \<open>
  \<^verbatim>\<open>INIT_WORK(&local->workqueue, f)\<close> binds the work function of the instance's
  work item. The binding is recorded in the trace, at the point where it happens.
\<close>

definition INIT_WORK :: "work_func \<Rightarrow> state \<Rightarrow> state" where
  "INIT_WORK f s = emit (Init_work f) (s\<lparr>pdata := (pdata s)\<lparr>workqueue := Some f\<rparr>\<rparr>)"

text \<open>
  \<^verbatim>\<open>remoteprocdev[i] = pdev\<close>. The array has \<open>MAX_INSTANCES\<close> elements; a
  store outside it is undefined in C and has no result here. The store is recorded in
  the trace, at the point where it happens.
\<close>

definition set_remoteprocdev :: "u32 \<Rightarrow> pdev_handle \<Rightarrow> state \<Rightarrow> state option" where
  "set_remoteprocdev i pdev s =
     (if unat i < MAX_INSTANCES
      then Some (emit (Set_remoteprocdev (unat i) pdev)
                   (s\<lparr>remoteprocdev := (remoteprocdev s)(unat i := Some pdev)\<rparr>))
      else None)"

text \<open>
  \<^verbatim>\<open>zynqmp_r5_rproc_start\<close>. The argument \<open>pdev\<close> is the platform device the
  \<^verbatim>\<open>rproc\<close> belongs to, and \<open>pdata\<close> of the state is its driver data
  (\<^verbatim>\<open>local\<close>).
\<close>

definition zynqmp_r5_rproc_start :: "pdev_handle \<Rightarrow> state \<Rightarrow> (int \<times> state) option" where
  "zynqmp_r5_rproc_start pdev s0 = do {
     let s1 = dev_dbg ''zynqmp_r5_rproc_start'' s0;
     let s2 = (if rpu_id (pdata s1) = 0
               then INIT_WORK Handle_event0 s1
               else INIT_WORK Handle_event1 s1);
     let s3 = flush_cache_all s2;
     s4 \<leftarrow> set_remoteprocdev (rpu_id (pdata s3)) pdev s3;
     s5 \<leftarrow> call_rpu rpu_ops_core_conf s4;
     s6 \<leftarrow> call_rpu (\<lambda>t. rpu_ops_en_reset t True) s5;
     s7 \<leftarrow> call_rpu (\<lambda>t. rpu_ops_halt t True) s6;
     s8 \<leftarrow> call_rpu rpu_ops_bootdev s7;
     let s9 = udelay 500 s8;
     s10 \<leftarrow> call_rpu (\<lambda>t. rpu_ops_en_reset t False) s9;
     s11 \<leftarrow> call_rpu (\<lambda>t. rpu_ops_halt t False) s10;
     s12 \<leftarrow> ipi_init s11;
     Some (0, s12)
   }"

text \<open>\<^verbatim>\<open>zynqmp_r5_rproc_kick\<close>: kick a firmware. \<open>vqid\<close> is not used.\<close>

definition zynqmp_r5_rproc_kick :: "int \<Rightarrow> state \<Rightarrow> state option" where
  "zynqmp_r5_rproc_kick vqid s0 = do {
     let s1 = dev_dbg ''KICK Firmware to start send messages'' s0;
     call_ipi ipi_ops_trigger s1
   }"

text \<open>\<^verbatim>\<open>zynqmp_r5_rproc_stop\<close>: power off the remote processor.\<close>

definition zynqmp_r5_rproc_stop :: "state \<Rightarrow> (int \<times> state) option" where
  "zynqmp_r5_rproc_stop s0 = do {
     let s1 = dev_dbg ''zynqmp_r5_rproc_stop'' s0;
     s2 \<leftarrow> call_rpu (\<lambda>t. rpu_ops_en_reset t True) s1;
     s3 \<leftarrow> call_rpu (\<lambda>t. rpu_ops_halt t True) s2;
     s4 \<leftarrow> call_ipi ipi_ops_reset s3;
     Some (0, s4)
   }"

text \<open>
  \<^verbatim>\<open>struct rproc_vring\<close> (declared in \<^verbatim>\<open>linux/remoteproc.h\<close>), with the two
  members the driver reads: \<open>va\<close>, the kernel virtual address of the vring, and
  \<open>dma\<close>, its DMA address.
\<close>

record rproc_vring =
  va :: addr
  dma :: addr

text \<open>
  \<^verbatim>\<open>zynqmp_r5_kva_to_guest_addr_kva\<close>:
  \<^verbatim>\<open>phys_to_virt(rvring->dma) + (va - rvring->va)\<close>, where \<open>rvring\<close> is
  \<^verbatim>\<open>vq->priv\<close>. The source's parameter \<^verbatim>\<open>va\<close> is \<open>kva\<close> here. The
  architecture's \<^verbatim>\<open>phys_to_virt\<close> is not part of the driver and is a parameter.
\<close>

definition zynqmp_r5_kva_to_guest_addr_kva ::
    "(addr \<Rightarrow> addr) \<Rightarrow> rproc_vring \<Rightarrow> addr \<Rightarrow> addr" where
  "zynqmp_r5_kva_to_guest_addr_kva phys_to_virt rvring kva =
     phys_to_virt (dma rvring) + (kva - va rvring)"

section \<open>Probe\<close>

definition ENXIO :: int where "ENXIO = 6"
definition ENOMEM :: int where "ENOMEM = 12"
definition ENODEV :: int where "ENODEV = 19"

text \<open>
  What the platform answers to \<^verbatim>\<open>zynqmp_r5_remoteproc_probe\<close>: the results of its
  calls into the kernel (allocation, resources, device tree properties, mappings,
  interrupt lookup and request, remoteproc registration) and the module parameter
  \<^verbatim>\<open>firmware\<close>.
  \<^item> \<open>dma_declare_io\<close>: the flags returned by
    \<^verbatim>\<open>dma_declare_coherent_memory\<close> include \<^verbatim>\<open>DMA_MEMORY_IO\<close>;
  \<^item> a device tree string property is its C string, \<open>None\<close> when absent;
  \<^item> a mapping is \<open>Inr\<close> the mapped address, or \<open>Inl\<close> the negative error code
    of an error pointer (\<^verbatim>\<open>IS_ERR\<close>);
  \<^item> \<open>of_ipi_dest_mask_ret\<close> and \<open>of_ipi_dest_mask_val\<close>: the return value of
    \<^verbatim>\<open>of_property_read_u32\<close> and the value it stores when it returns 0.
\<close>

record platform =
  kzalloc_ok :: bool
  res_vring0 :: "(addr \<times> addr) option"
  dma_declare_io :: bool
  dma_set_coherent_mask_ret :: int
  prop_core_conf :: "string option"
  prop_method :: "string option"
  prop_bootmem :: "string option"
  ioremap_rpu_base :: "int + addr"
  ioremap_apb_base :: "int + addr"
  ioremap_ipi :: "int + addr"
  platform_get_irq_ret :: int
  devm_request_irq_ret :: "u32 \<Rightarrow> int"
  of_ipi_dest_mask_ret :: int
  of_ipi_dest_mask_val :: u32
  prop_firmware :: "string option"
  param_firmware :: "string option"
  rproc_alloc_ret :: "rproc_handle option"
  rproc_add_ret :: int

text \<open>The instance as \<^verbatim>\<open>devm_kzalloc\<close> returns it: all members zero.\<close>

definition zero_pdata :: zynqmp_r5_rproc_pdata where
  "zero_pdata =
     \<lparr>rproc = None, ipi_ops = None, rpu_ops = None, workqueue = None,
      rpu_base = 0, crl_apb_base = 0, ipi_base = 0,
      rpu_mode = LOCK_STEP, bootmem = TCM,
      ipi_dest_mask = 0, rpu_id = 0, vring0 = 0\<rparr>"

text \<open>
  The three exit labels. Each takes the value of the local variable \<^verbatim>\<open>ret\<close> at
  the \<^verbatim>\<open>goto\<close>; \<^verbatim>\<open>err_exit\<close> is \<^verbatim>\<open>return 0;\<close>.
\<close>

definition err_exit :: "int \<Rightarrow> state \<Rightarrow> int \<times> state" where
  "err_exit ret s = (0, s)"

definition dma_mask_fault :: "int \<Rightarrow> state \<Rightarrow> int \<times> state" where
  "dma_mask_fault ret s = err_exit ret (emit Dma_release_declared_memory s)"

definition rproc_fault :: "int \<Rightarrow> state \<Rightarrow> int \<times> state" where
  "rproc_fault ret s = dma_mask_fault ret (emit Rproc_put s)"

text \<open>
  The body of the probe, from its end to its beginning: each part is the rest of the
  function from a point on, with the value of \<^verbatim>\<open>ret\<close> there.
\<close>

text \<open>From \<^verbatim>\<open>of_property_read_u32(..., "ipi_dest_mask", ...)\<close> to the end.\<close>

definition probe_rproc :: "platform \<Rightarrow> state \<Rightarrow> int \<times> state" where
  "probe_rproc env s0 =
     (let ret = of_ipi_dest_mask_ret env;
          s1 = (if ret = 0
                then s0\<lparr>pdata := (pdata s0)\<lparr>ipi_dest_mask := of_ipi_dest_mask_val env\<rparr>\<rparr>
                else s0);
          s2 = (if ret < 0
                then emit (Dev_warn ''default ipi_dest_mask used: 0x100'')
                       (s1\<lparr>pdata := (pdata s1)\<lparr>ipi_dest_mask := 0x100\<rparr>\<rparr>)
                else s1);
          s3 = emit (Dev_info ''ipi_dest_mask'') s2;
          prop = prop_firmware env;
          prop = (case param_firmware env of
                    Some f \<Rightarrow> Some f
                  | None \<Rightarrow> (case prop of None \<Rightarrow> Some DEFAULT_FIRMWARE_NAME
                             | Some p \<Rightarrow> Some p))
      in case prop of
           Some fw \<Rightarrow>
             (let s4 = dev_dbg ''Using firmware'' s3;
                  s5 = emit (Rproc_alloc fw) s4;
                  s6 = s5\<lparr>pdata := (pdata s5)\<lparr>rproc := rproc_alloc_ret env\<rparr>\<rparr>
              in if rproc (pdata s6) = None
                 then rproc_fault ret (emit (Dev_err ''rproc allocation failed'') s6)
                 else (let s7 = emit Rproc_add s6;
                           ret = rproc_add_ret env
                       in if ret \<noteq> 0
                          then rproc_fault ret
                                 (emit (Dev_err ''rproc registration failed'') s7)
                          else (ret, s7)))
         | None \<Rightarrow> (- ENODEV, s3))"

text \<open>
  From the comment \<^verbatim>\<open>/* IPI IRQ */\<close> on. \<^verbatim>\<open>vring0\<close> is a \<^verbatim>\<open>u32\<close>: the
  \<^verbatim>\<open>int\<close> that \<^verbatim>\<open>platform_get_irq\<close> returns is converted on assignment, and
  \<^verbatim>\<open>local->vring0 < 0\<close> compares unsigned values.
\<close>

definition probe_irq :: "platform \<Rightarrow> state \<Rightarrow> int \<times> state" where
  "probe_irq env s0 =
     (let s1 = s0\<lparr>pdata := (pdata s0)\<lparr>vring0 := word_of_int (platform_get_irq_ret env)\<rparr>\<rparr>
      in if vring0 (pdata s1) < 0
         then (let ret = sint (vring0 (pdata s1))
               in dma_mask_fault ret (emit (Dev_err ''unable to find IPI IRQ'') s1))
         else (let s2 = emit (Devm_request_irq (vring0 (pdata s1))) s1;
                   ret = devm_request_irq_ret env (vring0 (pdata s1))
               in if ret \<noteq> 0
                  then dma_mask_fault ret (emit (Dev_err ''IRQ already allocated'') s2)
                  else probe_rproc env (dev_dbg ''vring0 irq'' s2)))"

text \<open>From \<^verbatim>\<open>of_get_property(..., "bootmem", NULL)\<close> on.\<close>

definition probe_bootmem :: "platform \<Rightarrow> int \<Rightarrow> state \<Rightarrow> int \<times> state" where
  "probe_bootmem env ret s0 =
     (let (prop, s1) =
            (case prop_bootmem env of
               None \<Rightarrow> (''tcm'', emit (Dev_warn ''default bootmem property used: tcm'') s0)
             | Some p \<Rightarrow> (p, s0));
          s2 = emit (Dev_info ''RPU bootmem'') s1
      in if prop = ''tcm''
         then probe_irq env (s2\<lparr>pdata := (pdata s2)\<lparr>bootmem := TCM\<rparr>\<rparr>)
         else if prop = ''ocm''
         then probe_irq env (s2\<lparr>pdata := (pdata s2)\<lparr>bootmem := OCM\<rparr>\<rparr>)
         else dma_mask_fault ret (emit (Dev_err ''Invalid R5 bootmem property'') s2))"

text \<open>Handle direct hardware access: the block under \<^verbatim>\<open>if (method == HW)\<close>.\<close>

definition probe_windows :: "platform \<Rightarrow> int \<Rightarrow> state \<Rightarrow> int \<times> state" where
  "probe_windows env ret s0 =
     (let s1 = emit (Devm_ioremap_resource ''rpu_base'') s0
      in case ioremap_rpu_base env of
           Inl e \<Rightarrow>
             dma_mask_fault e
               (emit (Dev_err ''Unable to map RPU I/O memory'')
                  (s1\<lparr>pdata := (pdata s1)\<lparr>rpu_base := word_of_int e\<rparr>\<rparr>))
         | Inr a \<Rightarrow>
             (let s2 = s1\<lparr>pdata := (pdata s1)\<lparr>rpu_base := a\<rparr>\<rparr>;
                  s3 = emit (Devm_ioremap_resource ''apb_base'') s2
              in case ioremap_apb_base env of
                   Inl e \<Rightarrow>
                     dma_mask_fault e
                       (emit (Dev_err ''Unable to map CRL_APB I/O memory'')
                          (s3\<lparr>pdata := (pdata s3)\<lparr>crl_apb_base := word_of_int e\<rparr>\<rparr>))
                 | Inr a \<Rightarrow>
                     (let s4 = s3\<lparr>pdata := (pdata s3)\<lparr>crl_apb_base := a\<rparr>\<rparr>;
                          s5 = emit (Devm_ioremap_resource ''ipi'') s4
                      in case ioremap_ipi env of
                           Inl e \<Rightarrow>
                             dma_mask_fault e
                               (pr_err ''zynqmp_r5_remoteproc_probe''
                                  (s5\<lparr>pdata := (pdata s5)\<lparr>ipi_base := word_of_int e\<rparr>\<rparr>))
                         | Inr a \<Rightarrow>
                             probe_bootmem env ret
                               (s5\<lparr>pdata := (pdata s5)\<lparr>ipi_base := a\<rparr>\<rparr>))))"

text \<open>From \<^verbatim>\<open>of_get_property(..., "method", NULL)\<close> on.\<close>

definition probe_method :: "platform \<Rightarrow> int \<Rightarrow> state \<Rightarrow> int \<times> state" where
  "probe_method env ret s0 =
     (let (prop, s1) =
            (case prop_method env of
               None \<Rightarrow> (''smc'', emit (Dev_warn ''default method used: smc'') s0)
             | Some p \<Rightarrow> (p, s0));
          s2 = emit (Dev_info ''IPI/RPU control method'') s1;
          after = (\<lambda>meth s. if meth = HW then probe_windows env ret s
                            else probe_bootmem env ret s)
      in if prop = ''direct''
         then after HW
                (s2\<lparr>pdata := (pdata s2)\<lparr>ipi_ops := Some Ipi_hw_ops,
                                        rpu_ops := Some Rpu_hw_ops\<rparr>\<rparr>)
         else if prop = ''hvc''
         then after HVC
                (s2\<lparr>pdata := (pdata s2)\<lparr>ipi_ops := Some Ipi_hvc_ops,
                                        rpu_ops := Some Rpu_hvc_ops\<rparr>\<rparr>)
         else if prop = ''smc''
         then after SMC
                (s2\<lparr>pdata := (pdata s2)\<lparr>ipi_ops := Some Ipi_smc_ops,
                                        rpu_ops := Some Rpu_smc_ops\<rparr>\<rparr>)
         else dma_mask_fault ret (emit (Dev_err ''Invalid method provided'') s2))"

text \<open>From \<^verbatim>\<open>of_get_property(..., "core_conf", NULL)\<close> on.\<close>

definition probe_core_conf :: "platform \<Rightarrow> int \<Rightarrow> state \<Rightarrow> int \<times> state" where
  "probe_core_conf env ret s0 =
     (let (prop, s1) =
            (case prop_core_conf env of
               None \<Rightarrow> (''lock-step'', emit (Dev_warn ''default core_conf used: lock-step'') s0)
             | Some p \<Rightarrow> (p, s0));
          s2 = emit (Dev_info ''RPU core_conf'') s1
      in if prop = ''split0''
         then probe_method env ret
                (s2\<lparr>pdata := (pdata s2)\<lparr>rpu_mode := SPLIT, rpu_id := 0\<rparr>\<rparr>)
         else if prop = ''split1''
         then probe_method env ret
                (s2\<lparr>pdata := (pdata s2)\<lparr>rpu_mode := SPLIT, rpu_id := 1\<rparr>\<rparr>)
         else if prop = ''lock-step''
         then probe_method env ret
                (s2\<lparr>pdata := (pdata s2)\<lparr>rpu_mode := LOCK_STEP, rpu_id := 0\<rparr>\<rparr>)
         else dma_mask_fault ret (emit (Dev_err ''Invalid core_conf mode provided'') s2))"

text \<open>
  \<^verbatim>\<open>zynqmp_r5_remoteproc_probe\<close>. The result is the value the function returns
  and the state it leaves; \<open>pdata\<close> of that state is the driver data of the device.
\<close>

definition zynqmp_r5_remoteproc_probe :: "platform \<Rightarrow> state \<Rightarrow> int \<times> state" where
  "zynqmp_r5_remoteproc_probe env s0 =
     (if \<not> kzalloc_ok env then (- ENOMEM, s0)
      else
        (let s1 = emit Platform_set_drvdata (s0\<lparr>pdata := zero_pdata\<rparr>)
         in case res_vring0 env of
              None \<Rightarrow> (- ENXIO, emit (Dev_err ''invalid address for vring0'') s1)
            | Some res \<Rightarrow>
                (let s2 = emit Dma_declare_coherent_memory s1
                 in if \<not> dma_declare_io env
                    then err_exit (- ENOMEM)
                           (emit (Dev_err ''dma_declare_coherent_memory failed'') s2)
                    else (let s3 = emit Dma_set_coherent_mask s2;
                              ret = dma_set_coherent_mask_ret env
                          in if ret \<noteq> 0
                             then dma_mask_fault ret (emit (Dev_err ''dma_set_coherent_mask'') s3)
                             else probe_core_conf env ret s3))))"

section \<open>The start sequence as the specification lists it\<close>

text \<open>
  The specification describes \<open>start\<close> as a list of twelve steps over the operations of
  the instance's control backend. \<open>spec_start_sequence\<close> is that list, in the
  specification's order and words; \<open>spec_step\<close> gives each step its meaning for an
  instance bound to the tables \<open>t\<close> and \<open>u\<close>, and \<open>spec_run\<close> performs a list of
  steps from left to right.
\<close>

datatype start_step =
    Bind_deferred_task
  | Flush_data_cache
  | Publish_instance
  | Configure_core_mode
  | Set_reset bool
  | Set_halt bool
  | Set_boot_device
  | Delay nat
  | Reset_notification_channel
  | Program_destination_mask

fun spec_step ::
    "rpu_ops_ref \<Rightarrow> ipi_ops_ref \<Rightarrow> pdev_handle \<Rightarrow> start_step \<Rightarrow> state \<Rightarrow> state" where
  "spec_step t u pdev Bind_deferred_task s =
     INIT_WORK (if rpu_id (pdata s) = 0 then Handle_event0 else Handle_event1) s"
| "spec_step t u pdev Flush_data_cache s = flush_cache_all s"
| "spec_step t u pdev Publish_instance s =
     emit (Set_remoteprocdev (unat (rpu_id (pdata s))) pdev)
       (s\<lparr>remoteprocdev := (remoteprocdev s)(unat (rpu_id (pdata s)) := Some pdev)\<rparr>)"
| "spec_step t u pdev Configure_core_mode s = rpu_ops_core_conf t s"
| "spec_step t u pdev (Set_reset asserted) s = rpu_ops_en_reset t asserted s"
| "spec_step t u pdev (Set_halt do_halt) s = rpu_ops_halt t do_halt s"
| "spec_step t u pdev Set_boot_device s = rpu_ops_bootdev t s"
| "spec_step t u pdev (Delay n) s = udelay n s"
| "spec_step t u pdev Reset_notification_channel s = ipi_ops_reset u s"
| "spec_step t u pdev Program_destination_mask s = ipi_ops_set_mask u s"

definition spec_start_sequence :: "start_step list" where
  "spec_start_sequence =
     [Bind_deferred_task, Flush_data_cache, Publish_instance,
      Configure_core_mode, Set_reset True, Set_halt True, Set_boot_device,
      Delay 500, Set_reset False, Set_halt False,
      Reset_notification_channel, Program_destination_mask]"

definition spec_run ::
    "rpu_ops_ref \<Rightarrow> ipi_ops_ref \<Rightarrow> pdev_handle \<Rightarrow> start_step list \<Rightarrow> state \<Rightarrow> state" where
  "spec_run t u pdev steps s = foldl (\<lambda>s' step. spec_step t u pdev step s') s steps"

section \<open>Notions used in the properties\<close>

text \<open>The round trip: \<open>start\<close>, then \<open>stop\<close> on the state \<open>start\<close> left.\<close>

definition start_then_stop :: "pdev_handle \<Rightarrow> state \<Rightarrow> state option" where
  "start_then_stop pdev s0 = do {
     (r1, s1) \<leftarrow> zynqmp_r5_rproc_start pdev s0;
     (r2, s2) \<leftarrow> zynqmp_r5_rproc_stop s1;
     Some s2
   }"

text \<open>
  The addresses of the registers the direct operations of instance \<open>p\<close> access: the
  reset register, the per-core configuration register of its core index, the global
  control register, and the notification enable, disable and status registers.
  \<open>written_regs\<close> lists the six that \<open>start\<close> and \<open>stop\<close> write.
\<close>

definition rst_addr :: "zynqmp_r5_rproc_pdata \<Rightarrow> addr" where
  "rst_addr p = reg_addr (crl_apb_base p) RST_LPD_TOP_OFFSET"

definition cfg_addr :: "zynqmp_r5_rproc_pdata \<Rightarrow> addr" where
  "cfg_addr p =
     reg_addr (rpu_base p) (if rpu_id p = 0 then RPU_0_CFG_OFFSET else RPU_1_CFG_OFFSET)"

definition glb_addr :: "zynqmp_r5_rproc_pdata \<Rightarrow> addr" where
  "glb_addr p = reg_addr (rpu_base p) 0"

definition ier_addr :: "zynqmp_r5_rproc_pdata \<Rightarrow> addr" where
  "ier_addr p = reg_addr (ipi_base p) IER_OFFSET"

definition idr_addr :: "zynqmp_r5_rproc_pdata \<Rightarrow> addr" where
  "idr_addr p = reg_addr (ipi_base p) IDR_OFFSET"

definition isr_addr :: "zynqmp_r5_rproc_pdata \<Rightarrow> addr" where
  "isr_addr p = reg_addr (ipi_base p) ISR_OFFSET"

definition written_regs :: "zynqmp_r5_rproc_pdata \<Rightarrow> addr list" where
  "written_regs p =
     [rst_addr p, cfg_addr p, glb_addr p, ier_addr p, idr_addr p, isr_addr p]"

text \<open>
  The core of instance \<open>p\<close> is held in reset when its bit of the reset register is set,
  and halted when the \<^verbatim>\<open>nCPUHALT\<close> bit of its configuration register is clear.
\<close>

definition in_reset :: "zynqmp_r5_rproc_pdata \<Rightarrow> (addr \<Rightarrow> u32) \<Rightarrow> bool" where
  "in_reset p m \<longleftrightarrow> bit (m (rst_addr p)) (unat (rpu_id p))"

definition halted :: "zynqmp_r5_rproc_pdata \<Rightarrow> (addr \<Rightarrow> u32) \<Rightarrow> bool" where
  "halted p m \<longleftrightarrow> \<not> bit (m (cfg_addr p)) 0"

text \<open>The trace of \<open>s'\<close> is the trace of \<open>s\<close> with further events after it.\<close>

definition extends_trace :: "state \<Rightarrow> state \<Rightarrow> bool" where
  "extends_trace s s' \<longleftrightarrow> (\<exists>evs. trace s' = trace s @ evs)"

text \<open>
  A call returned, and all it did was print one message at error level: the instance,
  the registers and the table of instances are as before.
\<close>

definition returns_without_effect :: "state \<Rightarrow> state option \<Rightarrow> bool" where
  "returns_without_effect s r \<longleftrightarrow>
     (\<exists>msg. r = Some (s\<lparr>trace := trace s @ [Pr_err msg]\<rparr>))"

text \<open>
  A device tree string property is unrecognized when it is present and is none of the
  names the probe compares it with. (An absent property takes a default.)
\<close>

definition unrecognized :: "string option \<Rightarrow> string list \<Rightarrow> bool" where
  "unrecognized prop names \<longleftrightarrow>
     (case prop of None \<Rightarrow> False | Some p \<Rightarrow> p \<notin> set names)"

text \<open>
  An instance on which the callbacks can run: both table pointers are set and the core
  index is inside \<^verbatim>\<open>remoteprocdev\<close>.
\<close>

definition bound_instance :: "zynqmp_r5_rproc_pdata \<Rightarrow> bool" where
  "bound_instance p \<longleftrightarrow>
     rpu_ops p \<noteq> None \<and> ipi_ops p \<noteq> None \<and> unat (rpu_id p) < MAX_INSTANCES"

definition binding :: "state \<Rightarrow> rpu_ops_ref option \<times> ipi_ops_ref option \<times> u32" where
  "binding s = (rpu_ops (pdata s), ipi_ops (pdata s), rpu_id (pdata s))"

section \<open>Sample inputs\<close>

text \<open>
  A platform as a ZynqMP device tree describes it (lock-step, direct register access,
  boot from TCM), the instance the probe builds from it, an instance bound to the secure
  monitor placeholders, and register contents to start from.
\<close>

definition sample_platform :: platform where
  "sample_platform =
     \<lparr>kzalloc_ok = True, res_vring0 = Some (0x3ED00000, 0x3ED03FFF),
      dma_declare_io = True, dma_set_coherent_mask_ret = 0,
      prop_core_conf = Some ''lock-step'', prop_method = Some ''direct'',
      prop_bootmem = Some ''tcm'',
      ioremap_rpu_base = Inr 0xFF9A0000, ioremap_apb_base = Inr 0xFF5E0000,
      ioremap_ipi = Inr 0xFF310000,
      platform_get_irq_ret = 30,
      devm_request_irq_ret = (\<lambda>irq. if irq < 1024 then 0 else - 22),
      of_ipi_dest_mask_ret = 0, of_ipi_dest_mask_val = 0x100,
      prop_firmware = None, param_firmware = None,
      rproc_alloc_ret = Some 0, rproc_add_ret = 0\<rparr>"

definition sample_pdata :: zynqmp_r5_rproc_pdata where
  "sample_pdata =
     \<lparr>rproc = Some 0, ipi_ops = Some Ipi_hw_ops, rpu_ops = Some Rpu_hw_ops,
      workqueue = None,
      rpu_base = 0xFF9A0000, crl_apb_base = 0xFF5E0000, ipi_base = 0xFF310000,
      rpu_mode = LOCK_STEP, bootmem = TCM,
      ipi_dest_mask = 0x100, rpu_id = 0, vring0 = 30\<rparr>"

definition smc_pdata :: zynqmp_r5_rproc_pdata where
  "smc_pdata =
     zero_pdata\<lparr>rproc := Some 0, ipi_ops := Some Ipi_smc_ops, rpu_ops := Some Rpu_smc_ops,
       ipi_dest_mask := 0x100, vring0 := 30\<rparr>"

definition sample_state :: "zynqmp_r5_rproc_pdata \<Rightarrow> (addr \<Rightarrow> u32) \<Rightarrow> state" where
  "sample_state p regs =
     \<lparr>pdata = p, mem = regs, remoteprocdev = (\<lambda>i. None), trace = []\<rparr>"

text \<open>
  Core 0 held in reset (with other reset bits of the register set too) and halted, with
  further bits set in its configuration register; every other register zero.
\<close>

definition regs_halted_reset :: "addr \<Rightarrow> u32" where
  "regs_halted_reset = (\<lambda>a. 0)(0xFF5E023C := 0x188FDF, 0xFF9A0100 := 0x0C)"

text \<open>A vring mapped outside the linear map, and the linear map of a 39-bit arm64 kernel.\<close>

definition sample_vring :: rproc_vring where
  "sample_vring = \<lparr>va = 0xFFFFFF8000100000, dma = 0x3ED00000\<rparr>"

definition sample_phys_to_virt :: "addr \<Rightarrow> addr" where
  "sample_phys_to_virt x = x + 0xFFFFFFC000000000"

section \<open>Basic facts\<close>

subsection \<open>Read-modify-write on a 32-bit register with an \<open>unsigned long\<close> mask\<close>

lemma or_assign_bit:
  "bit (or_assign tmp (BIT k)) n \<longleftrightarrow> n < 32 \<and> (bit tmp n \<or> n = k)"
  by (auto simp: or_assign_def BIT_def bit_simps)

lemma and_not_assign_bit:
  "bit (and_not_assign tmp (BIT k)) n \<longleftrightarrow> bit tmp n \<and> n \<noteq> k"
  by (auto simp: and_not_assign_def BIT_def bit_simps dest: bit_imp_le_length)

lemma or_assign_u32: "or_assign tmp b = tmp OR ucast b"
  unfolding or_assign_def by (rule bit_word_eqI) (auto simp: bit_simps)

lemma and_not_assign_u32: "and_not_assign tmp b = tmp AND NOT (ucast b)"
  unfolding and_not_assign_def by (rule bit_word_eqI) (auto simp: bit_simps)

lemmas bit_names =
  SLSPLIT_BIT_def TCM_COMB_BIT_def SLCLAMP_BIT_def VINITHI_BIT_def nCPUHALT_BIT_def

lemma ucast_BITs:
  "(ucast SLSPLIT_BIT :: u32) = 0x08" "(ucast TCM_COMB_BIT :: u32) = 0x40"
  "(ucast SLCLAMP_BIT :: u32) = 0x10" "(ucast VINITHI_BIT :: u32) = 0x04"
  "(ucast nCPUHALT_BIT :: u32) = 0x01"
  by (simp_all add: bit_names BIT_def)

lemma push_bit_RPU0: "push_bit m RPU0_RESET_BIT = BIT m"
  by (simp add: BIT_def RPU0_RESET_BIT_def)

subsection \<open>The direct operations as state updates\<close>

lemma hw_r5_core_config_eq:
  "hw_r5_core_config s =
     (let a = reg_addr (rpu_base (pdata s)) 0; v = mem s a;
          v' = (if rpu_mode (pdata s) = SPLIT
                then and_not_assign
                       (and_not_assign (or_assign v SLSPLIT_BIT) TCM_COMB_BIT) SLCLAMP_BIT
                else or_assign
                       (or_assign (and_not_assign v SLSPLIT_BIT) TCM_COMB_BIT) SLCLAMP_BIT)
      in s\<lparr>mem := (mem s)(a := v'), trace := trace s @ [Reg_read a v, Reg_write a v']\<rparr>)"
  by (simp add: hw_r5_core_config_def reg_read_def reg_write_def emit_def pr_debug_def Let_def)

lemma hw_r5_boot_dev_eq:
  "hw_r5_boot_dev s =
     (let a = reg_addr (rpu_base (pdata s))
                (if rpu_id (pdata s) = 0 then RPU_0_CFG_OFFSET else RPU_1_CFG_OFFSET);
          v = mem s a;
          v' = (if bootmem (pdata s) = OCM then or_assign v VINITHI_BIT
                else and_not_assign v VINITHI_BIT)
      in s\<lparr>mem := (mem s)(a := v'), trace := trace s @ [Reg_read a v, Reg_write a v']\<rparr>)"
  by (simp add: hw_r5_boot_dev_def reg_read_def reg_write_def emit_def pr_debug_def Let_def)

lemma hw_r5_halt_eq:
  "hw_r5_halt do_halt s =
     (let a = reg_addr (rpu_base (pdata s))
                (if rpu_id (pdata s) = 0 then RPU_0_CFG_OFFSET else RPU_1_CFG_OFFSET);
          v = mem s a;
          v' = (if do_halt then and_not_assign v nCPUHALT_BIT
                else or_assign v nCPUHALT_BIT)
      in s\<lparr>mem := (mem s)(a := v'), trace := trace s @ [Reg_read a v, Reg_write a v']\<rparr>)"
  by (simp add: hw_r5_halt_def reg_read_def reg_write_def emit_def pr_debug_def Let_def)

lemma hw_r5_reset_eq:
  "hw_r5_reset do_reset s =
     (let a = reg_addr (crl_apb_base (pdata s)) RST_LPD_TOP_OFFSET;
          v = mem s a;
          v' = (if do_reset then or_assign v (BIT (unat (rpu_id (pdata s))))
                else and_not_assign v (BIT (unat (rpu_id (pdata s)))))
      in s\<lparr>mem := (mem s)(a := v'), trace := trace s @ [Reg_read a v, Reg_write a v']\<rparr>)"
  by (simp add: hw_r5_reset_def reg_read_def reg_write_def emit_def pr_debug_def Let_def
        push_bit_RPU0)

lemma hw_clear_ipi_eq:
  "hw_clear_ipi s =
     (let isr = reg_addr (ipi_base (pdata s)) ISR_OFFSET
      in s\<lparr>mem := (mem s)(isr := ipi_dest_mask (pdata s)),
           trace := trace s @ [Reg_write isr (ipi_dest_mask (pdata s))]\<rparr>)"
  by (simp add: hw_clear_ipi_def reg_write_def emit_def pr_debug_def Let_def)

lemma hw_ipi_reset_eq:
  "hw_ipi_reset s =
     (let idr = reg_addr (ipi_base (pdata s)) IDR_OFFSET;
          isr = reg_addr (ipi_base (pdata s)) ISR_OFFSET
      in s\<lparr>mem := (mem s)(idr := IPI_ALL_MASK, isr := IPI_ALL_MASK),
           trace := trace s @
             [Reg_write idr IPI_ALL_MASK, Reg_write isr IPI_ALL_MASK, Udelay 10]\<rparr>)"
  by (simp add: hw_ipi_reset_def reg_write_def emit_def pr_debug_def udelay_def Let_def)

lemma hw_set_ipi_mask_eq:
  "hw_set_ipi_mask s =
     (let ier = reg_addr (ipi_base (pdata s)) IER_OFFSET
      in s\<lparr>mem := (mem s)(ier := ipi_dest_mask (pdata s)),
           trace := trace s @ [Reg_write ier (ipi_dest_mask (pdata s))]\<rparr>)"
  by (simp add: hw_set_ipi_mask_def reg_write_def emit_def pr_debug_def Let_def)

lemma hw_trigger_ipi_eq:
  "hw_trigger_ipi s =
     (let trig = reg_addr (ipi_base (pdata s)) TRIG_OFFSET
      in s\<lparr>mem := (mem s)(trig := ipi_dest_mask (pdata s)),
           trace := trace s @ [Reg_write trig (ipi_dest_mask (pdata s))]\<rparr>)"
  by (simp add: hw_trigger_ipi_def reg_write_def emit_def pr_debug_def Let_def)

lemmas hw_eqs =
  hw_r5_core_config_eq hw_r5_boot_dev_eq hw_r5_halt_eq hw_r5_reset_eq
  hw_ipi_reset_eq hw_set_ipi_mask_eq hw_clear_ipi_eq hw_trigger_ipi_eq

lemmas stub_defs =
  smc_r5_boot_dev_def smc_r5_reset_def smc_r5_halt_def smc_r5_core_config_def
  hvc_r5_boot_dev_def hvc_r5_reset_def hvc_r5_halt_def hvc_r5_core_config_def
  smc_clear_ipi_def smc_ipi_reset_def smc_set_ipi_mask_def smc_trigger_ipi_def
  hvc_clear_ipi_def hvc_ipi_reset_def hvc_set_ipi_mask_def hvc_trigger_ipi_def
  pr_err_def emit_def

lemmas const_defs =
  RPU_GLBL_CNTL_OFFSET_def RPU_0_CFG_OFFSET_def RPU_1_CFG_OFFSET_def
  RST_LPD_TOP_OFFSET_def TRIG_OFFSET_def ISR_OFFSET_def IER_OFFSET_def IDR_OFFSET_def
  IPI_ALL_MASK_def MAX_INSTANCES_def reg_addr_def

lemmas eval_defs =
  sample_state_def sample_pdata_def const_defs hw_eqs Let_def
  or_assign_u32 and_not_assign_u32 ucast_BITs BIT_def udelay_def flush_cache_all_def emit_def
  INIT_WORK_def

subsection \<open>No operation writes to the instance\<close>

lemma pdata_rpu_ops [simp]:
  "pdata (rpu_ops_core_conf t s) = pdata s"
  "pdata (rpu_ops_bootdev t s) = pdata s"
  "pdata (rpu_ops_halt t b s) = pdata s"
  "pdata (rpu_ops_en_reset t b s) = pdata s"
  by (cases t; simp add: stub_defs hw_eqs Let_def)+

lemma pdata_ipi_ops [simp]:
  "pdata (ipi_ops_reset u s) = pdata s"
  "pdata (ipi_ops_set_mask u s) = pdata s"
  "pdata (ipi_ops_clear u s) = pdata s"
  "pdata (ipi_ops_trigger u s) = pdata s"
  by (cases u; simp add: stub_defs hw_eqs Let_def)+

lemma pdata_misc [simp]:
  "pdata (udelay n s) = pdata s"
  "pdata (flush_cache_all s) = pdata s"
  "pdata (dev_dbg m s) = pdata s"
  "pdata (pr_debug m s) = pdata s"
  by (simp_all add: udelay_def flush_cache_all_def emit_def dev_dbg_def pr_debug_def)

lemma call_rpu_Some: "rpu_ops (pdata s) = Some t \<Longrightarrow> call_rpu f s = Some (f t s)"
  by (simp add: call_rpu_def)

lemma call_ipi_Some: "ipi_ops (pdata s) = Some u \<Longrightarrow> call_ipi f s = Some (f u s)"
  by (simp add: call_ipi_def)

subsection \<open>\<open>start\<close> and \<open>stop\<close> on a bound instance\<close>

lemma start_eq:
  assumes "rpu_ops (pdata s) = Some t" and "ipi_ops (pdata s) = Some u"
    and "unat (rpu_id (pdata s)) < MAX_INSTANCES"
  shows "zynqmp_r5_rproc_start pdev s =
    (let s2 = INIT_WORK (if rpu_id (pdata s) = 0 then Handle_event0 else Handle_event1) s;
         s3 = flush_cache_all s2;
         s4 = emit (Set_remoteprocdev (unat (rpu_id (pdata s))) pdev)
                (s3\<lparr>remoteprocdev :=
                      (remoteprocdev s)(unat (rpu_id (pdata s)) := Some pdev)\<rparr>);
         s5 = rpu_ops_core_conf t s4;
         s6 = rpu_ops_en_reset t True s5;
         s7 = rpu_ops_halt t True s6;
         s8 = rpu_ops_bootdev t s7;
         s9 = udelay 500 s8;
         s10 = rpu_ops_en_reset t False s9;
         s11 = rpu_ops_halt t False s10;
         s12 = ipi_ops_reset u s11
     in Some (0, ipi_ops_set_mask u s12))"
  using assms
  by (simp add: zynqmp_r5_rproc_start_def ipi_init_def set_remoteprocdev_def INIT_WORK_def
        call_rpu_Some call_ipi_Some Let_def dev_dbg_def pr_debug_def flush_cache_all_def
        emit_def)

lemma start_pdata:
  assumes "rpu_ops (pdata s) = Some t" and "ipi_ops (pdata s) = Some u"
    and "unat (rpu_id (pdata s)) < MAX_INSTANCES"
  shows "\<exists>s1. zynqmp_r5_rproc_start pdev s = Some (0, s1) \<and>
              pdata s1 = (pdata s)\<lparr>workqueue :=
                Some (if rpu_id (pdata s) = 0 then Handle_event0 else Handle_event1)\<rparr>"
  unfolding start_eq [OF assms]
  by (simp add: Let_def INIT_WORK_def flush_cache_all_def emit_def)

lemma stop_direct:
  assumes "rpu_ops (pdata s) = Some Rpu_hw_ops" and "ipi_ops (pdata s) = Some Ipi_hw_ops"
  shows "zynqmp_r5_rproc_stop s =
    Some (0, hw_ipi_reset (hw_r5_halt True (hw_r5_reset True s)))"
proof -
  have "pdata (hw_r5_reset True s) = pdata s"
    using pdata_rpu_ops(4) [of Rpu_hw_ops True s] by simp
  moreover have "pdata (hw_r5_halt True (hw_r5_reset True s)) = pdata s"
    using pdata_rpu_ops(3,4) [of Rpu_hw_ops] by simp
  ultimately show ?thesis
    using assms by (simp add: zynqmp_r5_rproc_stop_def call_rpu_def call_ipi_def dev_dbg_def)
qed

lemma start_direct:
  assumes "rpu_ops (pdata s) = Some Rpu_hw_ops" and "ipi_ops (pdata s) = Some Ipi_hw_ops"
    and "unat (rpu_id (pdata s)) < MAX_INSTANCES"
  shows "zynqmp_r5_rproc_start pdev s =
    Some (0, hw_set_ipi_mask (hw_ipi_reset (hw_r5_halt False (hw_r5_reset False (udelay 500
      (hw_r5_boot_dev (hw_r5_halt True (hw_r5_reset True (hw_r5_core_config
        (emit (Set_remoteprocdev (unat (rpu_id (pdata s))) pdev)
          ((flush_cache_all
             (INIT_WORK (if rpu_id (pdata s) = 0 then Handle_event0 else Handle_event1) s))
           \<lparr>remoteprocdev :=
               (remoteprocdev s)(unat (rpu_id (pdata s)) := Some pdev)\<rparr>)))))))))))"
  unfolding start_eq [OF assms] by (simp add: Let_def)

subsection \<open>The registers after each direct operation\<close>

lemmas addr_defs =
  rst_addr_def cfg_addr_def glb_addr_def ier_addr_def idr_addr_def isr_addr_def

lemma addr_workqueue [simp]:
  "rst_addr (p\<lparr>workqueue := w\<rparr>) = rst_addr p"
  "cfg_addr (p\<lparr>workqueue := w\<rparr>) = cfg_addr p"
  "glb_addr (p\<lparr>workqueue := w\<rparr>) = glb_addr p"
  "ier_addr (p\<lparr>workqueue := w\<rparr>) = ier_addr p"
  "idr_addr (p\<lparr>workqueue := w\<rparr>) = idr_addr p"
  "isr_addr (p\<lparr>workqueue := w\<rparr>) = isr_addr p"
  by (simp_all add: addr_defs)

lemma pdata_hw [simp]:
  "pdata (hw_r5_core_config s) = pdata s"
  "pdata (hw_r5_boot_dev s) = pdata s"
  "pdata (hw_r5_halt b s) = pdata s"
  "pdata (hw_r5_reset b s) = pdata s"
  "pdata (hw_ipi_reset s) = pdata s"
  "pdata (hw_set_ipi_mask s) = pdata s"
  by (simp_all add: hw_eqs Let_def)

lemma pdata_INIT_WORK [simp]:
  "pdata (INIT_WORK f s) = (pdata s)\<lparr>workqueue := Some f\<rparr>"
  "pdata (emit e s) = pdata s"
  by (simp_all add: INIT_WORK_def emit_def)

lemma mem_misc [simp]:
  "mem (udelay n s) = mem s"
  "mem (flush_cache_all s) = mem s"
  "mem (INIT_WORK f s) = mem s"
  "mem (emit e s) = mem s"
  by (simp_all add: udelay_def flush_cache_all_def INIT_WORK_def emit_def)

lemma mem_hw_r5_reset:
  "mem (hw_r5_reset b s) a =
     (if a = rst_addr (pdata s)
      then (if b then or_assign (mem s a) (BIT (unat (rpu_id (pdata s))))
            else and_not_assign (mem s a) (BIT (unat (rpu_id (pdata s)))))
      else mem s a)"
  by (simp add: hw_r5_reset_eq Let_def rst_addr_def)

lemma mem_hw_r5_halt:
  "mem (hw_r5_halt b s) a =
     (if a = cfg_addr (pdata s)
      then (if b then and_not_assign (mem s a) nCPUHALT_BIT
            else or_assign (mem s a) nCPUHALT_BIT)
      else mem s a)"
  by (simp add: hw_r5_halt_eq Let_def cfg_addr_def)

lemma mem_hw_r5_boot_dev:
  "mem (hw_r5_boot_dev s) a =
     (if a = cfg_addr (pdata s)
      then (if bootmem (pdata s) = OCM then or_assign (mem s a) VINITHI_BIT
            else and_not_assign (mem s a) VINITHI_BIT)
      else mem s a)"
  by (simp add: hw_r5_boot_dev_eq Let_def cfg_addr_def)

lemma mem_hw_r5_core_config:
  "mem (hw_r5_core_config s) a =
     (if a = glb_addr (pdata s)
      then (if rpu_mode (pdata s) = SPLIT
            then and_not_assign
                   (and_not_assign (or_assign (mem s a) SLSPLIT_BIT) TCM_COMB_BIT) SLCLAMP_BIT
            else or_assign
                   (or_assign (and_not_assign (mem s a) SLSPLIT_BIT) TCM_COMB_BIT) SLCLAMP_BIT)
      else mem s a)"
  by (simp add: hw_r5_core_config_eq Let_def glb_addr_def)

lemma mem_hw_ipi_reset:
  "mem (hw_ipi_reset s) a =
     (if a = isr_addr (pdata s) \<or> a = idr_addr (pdata s) then IPI_ALL_MASK else mem s a)"
  by (simp add: hw_ipi_reset_eq Let_def isr_addr_def idr_addr_def)

lemma mem_hw_set_ipi_mask:
  "mem (hw_set_ipi_mask s) a =
     (if a = ier_addr (pdata s) then ipi_dest_mask (pdata s) else mem s a)"
  by (simp add: hw_set_ipi_mask_eq Let_def ier_addr_def)

lemmas mem_hw =
  mem_hw_r5_reset mem_hw_r5_halt mem_hw_r5_boot_dev mem_hw_r5_core_config
  mem_hw_ipi_reset mem_hw_set_ipi_mask

subsection \<open>Operations only add to the trace\<close>

lemma extends_trace_refl: "extends_trace s s"
  by (simp add: extends_trace_def)

lemma extends_trace_trans:
  "extends_trace s s' \<Longrightarrow> extends_trace s' s'' \<Longrightarrow> extends_trace s s''"
  by (auto simp: extends_trace_def)

lemma extends_trace_ops:
  "extends_trace s (rpu_ops_core_conf t s)"
  "extends_trace s (rpu_ops_bootdev t s)"
  "extends_trace s (rpu_ops_halt t b s)"
  "extends_trace s (rpu_ops_en_reset t b s)"
  "extends_trace s (ipi_ops_reset u s)"
  "extends_trace s (ipi_ops_set_mask u s)"
  "extends_trace s (udelay n s)"
  by (cases t; cases u; simp add: extends_trace_def stub_defs hw_eqs Let_def udelay_def)+

lemma extends_trace_step:
  "extends_trace s x \<Longrightarrow> extends_trace s (rpu_ops_core_conf t x)"
  "extends_trace s x \<Longrightarrow> extends_trace s (rpu_ops_bootdev t x)"
  "extends_trace s x \<Longrightarrow> extends_trace s (rpu_ops_halt t b x)"
  "extends_trace s x \<Longrightarrow> extends_trace s (rpu_ops_en_reset t b x)"
  "extends_trace s x \<Longrightarrow> extends_trace s (ipi_ops_reset u x)"
  "extends_trace s x \<Longrightarrow> extends_trace s (ipi_ops_set_mask u x)"
  "extends_trace s x \<Longrightarrow> extends_trace s (udelay n x)"
  by (erule extends_trace_trans, rule extends_trace_ops)+

subsection \<open>What the probe returns and leaves\<close>

lemmas exit_defs =
  err_exit_def dma_mask_fault_def rproc_fault_def emit_def pr_err_def dev_dbg_def

lemma probe_rproc_ret: "fst (probe_rproc env s) = 0"
  by (simp add: probe_rproc_def exit_defs Let_def split: option.splits)

lemma probe_irq_ret: "fst (probe_irq env s) = 0"
  by (simp add: probe_irq_def probe_rproc_ret exit_defs Let_def)

lemma probe_bootmem_ret: "fst (probe_bootmem env ret s) = 0"
  by (simp add: probe_bootmem_def probe_irq_ret exit_defs Let_def
        split: option.splits prod.splits)

lemma probe_windows_ret: "fst (probe_windows env ret s) = 0"
  by (simp add: probe_windows_def probe_bootmem_ret exit_defs Let_def split: sum.splits)

lemma probe_method_ret: "fst (probe_method env ret s) = 0"
  by (simp add: probe_method_def probe_windows_ret probe_bootmem_ret exit_defs Let_def
        split: option.splits prod.splits)

lemma probe_core_conf_ret: "fst (probe_core_conf env ret s) = 0"
  by (simp add: probe_core_conf_def probe_method_ret exit_defs Let_def
        split: option.splits prod.splits)

text \<open>Once the instance is allocated and the vring resource found, the probe returns 0.\<close>

lemma probe_ret:
  "kzalloc_ok env \<Longrightarrow> res_vring0 env = Some res \<Longrightarrow>
   fst (zynqmp_r5_remoteproc_probe env s) = 0"
  by (simp add: zynqmp_r5_remoteproc_probe_def probe_core_conf_ret exit_defs Let_def)

lemma probe_rproc_mem: "mem (snd (probe_rproc env s)) = mem s"
  by (simp add: probe_rproc_def exit_defs Let_def split: option.splits)

lemma probe_irq_mem: "mem (snd (probe_irq env s)) = mem s"
  by (simp add: probe_irq_def probe_rproc_mem exit_defs Let_def)

lemma probe_bootmem_mem: "mem (snd (probe_bootmem env ret s)) = mem s"
  by (simp add: probe_bootmem_def probe_irq_mem exit_defs Let_def
        split: option.splits prod.splits)

lemma probe_windows_mem: "mem (snd (probe_windows env ret s)) = mem s"
  by (simp add: probe_windows_def probe_bootmem_mem exit_defs Let_def split: sum.splits)

lemma probe_method_mem: "mem (snd (probe_method env ret s)) = mem s"
  by (simp add: probe_method_def probe_windows_mem probe_bootmem_mem exit_defs Let_def
        split: option.splits prod.splits)

lemma probe_core_conf_mem: "mem (snd (probe_core_conf env ret s)) = mem s"
  by (simp add: probe_core_conf_def probe_method_mem exit_defs Let_def
        split: option.splits prod.splits)

text \<open>The probe writes no register.\<close>

lemma probe_mem: "mem (snd (zynqmp_r5_remoteproc_probe env s)) = mem s"
  by (simp add: zynqmp_r5_remoteproc_probe_def probe_core_conf_mem exit_defs Let_def
        split: option.splits)

lemma probe_bootmem_rproc:
  "unrecognized (prop_bootmem env) [''tcm'', ''ocm''] \<Longrightarrow>
   rproc (pdata (snd (probe_bootmem env ret s))) = rproc (pdata s)"
  by (auto simp: unrecognized_def probe_bootmem_def exit_defs Let_def split: option.splits)

lemma probe_windows_rproc:
  "unrecognized (prop_bootmem env) [''tcm'', ''ocm''] \<Longrightarrow>
   rproc (pdata (snd (probe_windows env ret s))) = rproc (pdata s)"
  by (simp add: probe_windows_def probe_bootmem_rproc exit_defs Let_def split: sum.splits)

lemma probe_method_rproc:
  "unrecognized (prop_method env) [''direct'', ''hvc'', ''smc''] \<or>
   unrecognized (prop_bootmem env) [''tcm'', ''ocm''] \<Longrightarrow>
   rproc (pdata (snd (probe_method env ret s))) = rproc (pdata s)"
  by (auto simp: unrecognized_def probe_method_def probe_windows_rproc probe_bootmem_rproc
        exit_defs Let_def split: option.splits)

lemma probe_core_conf_rproc:
  "unrecognized (prop_core_conf env) [''split0'', ''split1'', ''lock-step''] \<or>
   unrecognized (prop_method env) [''direct'', ''hvc'', ''smc''] \<or>
   unrecognized (prop_bootmem env) [''tcm'', ''ocm''] \<Longrightarrow>
   rproc (pdata (snd (probe_core_conf env ret s))) = rproc (pdata s)"
  by (auto simp: unrecognized_def [of "prop_core_conf env"] probe_core_conf_def
        probe_method_rproc exit_defs Let_def split: option.splits)

subsection \<open>The instances the probe registers are bound\<close>

lemma probe_rproc_binding: "binding (snd (probe_rproc env s)) = binding s"
  by (simp add: probe_rproc_def exit_defs Let_def binding_def split: option.splits)

lemma probe_irq_binding: "binding (snd (probe_irq env s)) = binding s"
  by (simp add: probe_irq_def exit_defs Let_def probe_rproc_binding) (simp add: binding_def)

lemma probe_bootmem_binding: "binding (snd (probe_bootmem env ret s)) = binding s"
  by (simp add: probe_bootmem_def exit_defs Let_def probe_irq_binding split: option.splits)
     (simp add: binding_def)

lemma probe_windows_binding: "binding (snd (probe_windows env ret s)) = binding s"
  by (simp add: probe_windows_def exit_defs Let_def probe_bootmem_binding split: sum.splits)
     (simp add: binding_def)

lemma bound_instance_binding:
  "bound_instance (pdata s) \<longleftrightarrow>
     (case binding s of (t, u, i) \<Rightarrow> t \<noteq> None \<and> u \<noteq> None \<and> unat i < MAX_INSTANCES)"
  by (simp add: bound_instance_def binding_def)

lemma probe_method_bound:
  "rproc (pdata s) = None \<Longrightarrow> unat (rpu_id (pdata s)) < MAX_INSTANCES \<Longrightarrow>
   rproc (pdata (snd (probe_method env ret s))) = None \<or>
   bound_instance (pdata (snd (probe_method env ret s)))"
  by (simp add: probe_method_def exit_defs Let_def bound_instance_binding
        probe_windows_binding probe_bootmem_binding split: option.splits)
     (simp add: binding_def)

lemma probe_core_conf_bound:
  "rproc (pdata s) = None \<Longrightarrow>
   rproc (pdata (snd (probe_core_conf env ret s))) = None \<or>
   bound_instance (pdata (snd (probe_core_conf env ret s)))"
  by (simp add: probe_core_conf_def exit_defs Let_def MAX_INSTANCES_def probe_method_bound
        split: option.splits)

text \<open>
  Whenever the probe leaves an instance with a remote processor allocated, that instance
  has both operation tables and a core index of 0 or 1.
\<close>

lemma probe_bound:
  "kzalloc_ok env \<Longrightarrow>
   rproc (pdata (snd (zynqmp_r5_remoteproc_probe env s))) = None \<or>
   bound_instance (pdata (snd (zynqmp_r5_remoteproc_probe env s)))"
  by (simp add: zynqmp_r5_remoteproc_probe_def exit_defs Let_def zero_pdata_def
        probe_core_conf_bound split: option.splits)

text \<open>The sample instance is the one the probe builds on the sample platform.\<close>

lemma probe_sample:
  "zynqmp_r5_remoteproc_probe sample_platform (sample_state p regs) =
     (0, \<lparr>pdata = sample_pdata, mem = regs, remoteprocdev = (\<lambda>i. None),
          trace = [Platform_set_drvdata, Dma_declare_coherent_memory, Dma_set_coherent_mask,
                   Dev_info ''RPU core_conf'', Dev_info ''IPI/RPU control method'',
                   Devm_ioremap_resource ''rpu_base'', Devm_ioremap_resource ''apb_base'',
                   Devm_ioremap_resource ''ipi'', Dev_info ''RPU bootmem'',
                   Devm_request_irq 30, Dev_info ''ipi_dest_mask'',
                   Rproc_alloc ''rproc-rpu-fw'', Rproc_add]\<rparr>)"
  by (simp add: zynqmp_r5_remoteproc_probe_def probe_core_conf_def probe_method_def
        probe_windows_def probe_bootmem_def probe_irq_def probe_rproc_def exit_defs Let_def
        sample_platform_def sample_state_def sample_pdata_def zero_pdata_def
        DEFAULT_FIRMWARE_NAME_def)

section \<open>Properties of the control backends\<close>

text \<open>
  C4. For every initial value of the shared core-configuration register (the register at
  offset 0 of the RPU window), \<^verbatim>\<open>hw_r5_core_config\<close>, the direct
  \<open>configureCoreMode\<close>, reads that register and writes it back, once each and in
  that order. With core configuration \<open>SPLIT\<close> the value written has the split-mode
  bit (3) set and the TCM-combine bit (6) and the clamp bit (4) clear; with
  \<open>LOCK_STEP\<close> it has the split-mode bit clear and the other two set. The value
  written is the value read with exactly these three changes.
\<close>

theorem core_config_split_lockstep:
  "(let a = reg_addr (rpu_base (pdata s)) 0; v = mem s a;
        s' = hw_r5_core_config s; v' = mem s' a
    in trace s' = trace s @ [Reg_read a v, Reg_write a v'] \<and>
       (rpu_mode (pdata s) = SPLIT \<longrightarrow> bit v' 3 \<and> \<not> bit v' 6 \<and> \<not> bit v' 4) \<and>
       (rpu_mode (pdata s) = LOCK_STEP \<longrightarrow> \<not> bit v' 3 \<and> bit v' 6 \<and> bit v' 4) \<and>
       v' = (if rpu_mode (pdata s) = SPLIT
             then ((v OR 0x08) AND NOT 0x40) AND NOT 0x10
             else ((v AND NOT 0x08) OR 0x40) OR 0x10))"
proof -
  define a where "a = reg_addr (rpu_base (pdata s)) 0"
  define v where "v = mem s a"
  define v' where "v' = mem (hw_r5_core_config s) a"
  have v'_eq: "v' = (if rpu_mode (pdata s) = SPLIT
      then and_not_assign (and_not_assign (or_assign v SLSPLIT_BIT) TCM_COMB_BIT) SLCLAMP_BIT
      else or_assign (or_assign (and_not_assign v SLSPLIT_BIT) TCM_COMB_BIT) SLCLAMP_BIT)"
    by (simp add: v'_def v_def a_def hw_r5_core_config_eq Let_def)
  have tr: "trace (hw_r5_core_config s) = trace s @ [Reg_read a v, Reg_write a v']"
    by (simp add: v'_def v_def a_def hw_r5_core_config_eq Let_def)
  have split: "bit v' 3 \<and> \<not> bit v' 6 \<and> \<not> bit v' 4" if "rpu_mode (pdata s) = SPLIT"
    using that by (simp add: v'_eq or_assign_bit and_not_assign_bit bit_names)
  have lock: "\<not> bit v' 3 \<and> bit v' 6 \<and> bit v' 4" if "rpu_mode (pdata s) = LOCK_STEP"
    using that by (simp add: v'_eq or_assign_bit and_not_assign_bit bit_names)
  have val: "v' = (if rpu_mode (pdata s) = SPLIT
      then ((v OR 0x08) AND NOT 0x40) AND NOT 0x10
      else ((v AND NOT 0x08) OR 0x40) OR 0x10)"
    unfolding v'_eq or_assign_u32 and_not_assign_u32 ucast_BITs ..
  show ?thesis
    unfolding Let_def a_def [symmetric] v_def [symmetric] v'_def [symmetric]
    using tr split lock val by blast
qed

theorem core_config_split_lockstep_witness:
  "rpu_mode (pdata (sample_state (sample_pdata\<lparr>rpu_mode := SPLIT\<rparr>) (\<lambda>a. 0xFFFFFFFF))) = SPLIT \<and>
   mem (hw_r5_core_config (sample_state (sample_pdata\<lparr>rpu_mode := SPLIT\<rparr>) (\<lambda>a. 0xFFFFFFFF)))
     0xFF9A0000 = 0xFFFFFFAF \<and>
   rpu_mode (pdata (sample_state sample_pdata (\<lambda>a. 0))) = LOCK_STEP \<and>
   mem (hw_r5_core_config (sample_state sample_pdata (\<lambda>a. 0))) 0xFF9A0000 = 0x50"
  using core_config_split_lockstep
          [of "sample_state (sample_pdata\<lparr>rpu_mode := SPLIT\<rparr>) (\<lambda>a. 0xFFFFFFFF)"]
        core_config_split_lockstep [of "sample_state sample_pdata (\<lambda>a. 0)"]
  by (simp add: Let_def sample_state_def sample_pdata_def reg_addr_def)

text \<open>
  C5. For every initial register state, \<^verbatim>\<open>hw_r5_boot_dev\<close>, the direct
  \<open>setBootDevice\<close>, reads the per-core configuration register selected by the core
  index (offset \<open>0x100\<close> of the RPU window for core index 0, offset \<open>0x200\<close>
  otherwise, and the two are different addresses) and writes it back, once each and in
  that order; the value written is the value read with the boot-source bit (2) set when
  the boot memory is OCM and clear otherwise.
\<close>

theorem boot_dev_sets_boot_source_bit:
  "(let a = rpu_base (pdata s) + (if rpu_id (pdata s) = 0 then 0x100 else 0x200);
        v = mem s a; s' = hw_r5_boot_dev s; v' = mem s' a
    in trace s' = trace s @ [Reg_read a v, Reg_write a v'] \<and>
       (bit v' 2 \<longleftrightarrow> bootmem (pdata s) = OCM) \<and>
       v' = (if bootmem (pdata s) = OCM then v OR 0x04 else v AND NOT 0x04)) \<and>
   rpu_base (pdata s) + 0x100 \<noteq> rpu_base (pdata s) + 0x200"
proof -
  define a where "a = rpu_base (pdata s) + (if rpu_id (pdata s) = 0 then 0x100 else 0x200)"
  define v where "v = mem s a"
  define v' where "v' = mem (hw_r5_boot_dev s) a"
  have a_eq: "reg_addr (rpu_base (pdata s))
      (if rpu_id (pdata s) = 0 then RPU_0_CFG_OFFSET else RPU_1_CFG_OFFSET) = a"
    by (simp add: a_def reg_addr_def RPU_0_CFG_OFFSET_def RPU_1_CFG_OFFSET_def)
  have v'_eq: "v' = (if bootmem (pdata s) = OCM then or_assign v VINITHI_BIT
      else and_not_assign v VINITHI_BIT)"
    unfolding v'_def v_def hw_r5_boot_dev_eq Let_def a_eq by simp
  have tr: "trace (hw_r5_boot_dev s) = trace s @ [Reg_read a v, Reg_write a v']"
    unfolding v'_def v_def hw_r5_boot_dev_eq Let_def a_eq by simp
  have b: "bit v' 2 \<longleftrightarrow> bootmem (pdata s) = OCM"
    by (simp add: v'_eq or_assign_bit and_not_assign_bit VINITHI_BIT_def)
  have val: "v' = (if bootmem (pdata s) = OCM then v OR 0x04 else v AND NOT 0x04)"
    unfolding v'_eq or_assign_u32 and_not_assign_u32 ucast_BITs ..
  have d: "rpu_base (pdata s) + 0x100 \<noteq> rpu_base (pdata s) + 0x200"
    by simp
  show ?thesis
    unfolding Let_def a_def [symmetric] v_def [symmetric] v'_def [symmetric]
    using tr b val d by blast
qed

theorem boot_dev_sets_boot_source_bit_witness:
  "mem (hw_r5_boot_dev (sample_state (sample_pdata\<lparr>bootmem := OCM\<rparr>) (\<lambda>a. 0))) 0xFF9A0100 = 0x04 \<and>
   mem (hw_r5_boot_dev (sample_state (sample_pdata\<lparr>bootmem := OCM, rpu_id := 1\<rparr>) (\<lambda>a. 0)))
     0xFF9A0200 = 0x04 \<and>
   mem (hw_r5_boot_dev (sample_state sample_pdata (\<lambda>a. 0xFFFFFFFF))) 0xFF9A0100 = 0xFFFFFFFB"
  using boot_dev_sets_boot_source_bit
          [of "sample_state (sample_pdata\<lparr>bootmem := OCM\<rparr>) (\<lambda>a. 0)"]
        boot_dev_sets_boot_source_bit
          [of "sample_state (sample_pdata\<lparr>bootmem := OCM, rpu_id := 1\<rparr>) (\<lambda>a. 0)"]
        boot_dev_sets_boot_source_bit [of "sample_state sample_pdata (\<lambda>a. 0xFFFFFFFF)"]
  by (simp add: Let_def sample_state_def sample_pdata_def)

text \<open>
  C6. For every instance and state, \<^verbatim>\<open>hw_ipi_reset\<close>, the direct
  \<open>resetNotificationChannel\<close>, does exactly this, in this order: it writes the mask
  \<open>0x0F0F0301\<close> to the disable register (\<open>IDR\<close>, offset \<open>0x1C\<close> of the IPI window),
  writes the same mask to the status register (\<open>ISR\<close>, offset \<open>0x10\<close>), and waits 10
  microseconds. Nothing else changes.
\<close>

theorem ipi_reset_disable_clear_delay:
  "hw_ipi_reset s =
     s\<lparr>mem := (mem s)(ipi_base (pdata s) + 0x1C := 0x0F0F0301,
                      ipi_base (pdata s) + 0x10 := 0x0F0F0301),
       trace := trace s @
         [Reg_write (ipi_base (pdata s) + 0x1C) 0x0F0F0301,
          Reg_write (ipi_base (pdata s) + 0x10) 0x0F0F0301,
          Udelay 10]\<rparr>"
  by (simp add: hw_ipi_reset_eq Let_def IPI_ALL_MASK_def reg_addr_def IDR_OFFSET_def
        ISR_OFFSET_def)

text \<open>
  C7. For every instance bound to the secure monitor or to the hypervisor tables, each of
  the eight operations, called through the instance's table pointer, returns, and leaves
  the registers, the instance and the table of instances as they were: it only prints
  one message at error level.
\<close>

theorem stub_ops_return_without_effect:
  assumes "rpu_ops (pdata s) = Some t" and "t = Rpu_smc_ops \<or> t = Rpu_hvc_ops"
    and "ipi_ops (pdata s) = Some u" and "u = Ipi_smc_ops \<or> u = Ipi_hvc_ops"
  shows "returns_without_effect s (call_rpu rpu_ops_core_conf s) \<and>
         returns_without_effect s (call_rpu rpu_ops_bootdev s) \<and>
         (\<forall>do_halt. returns_without_effect s (call_rpu (\<lambda>tbl. rpu_ops_halt tbl do_halt) s)) \<and>
         (\<forall>do_reset.
            returns_without_effect s (call_rpu (\<lambda>tbl. rpu_ops_en_reset tbl do_reset) s)) \<and>
         returns_without_effect s (call_ipi ipi_ops_clear s) \<and>
         returns_without_effect s (call_ipi ipi_ops_reset s) \<and>
         returns_without_effect s (call_ipi ipi_ops_set_mask s) \<and>
         returns_without_effect s (call_ipi ipi_ops_trigger s)"
  using assms
  by (auto simp: returns_without_effect_def call_rpu_def call_ipi_def stub_defs)

theorem stub_ops_return_without_effect_witness:
  "rpu_ops (pdata (sample_state smc_pdata (\<lambda>a. 0))) = Some Rpu_smc_ops \<and>
   ipi_ops (pdata (sample_state smc_pdata (\<lambda>a. 0))) = Some Ipi_smc_ops \<and>
   call_rpu (\<lambda>tbl. rpu_ops_en_reset tbl True) (sample_state smc_pdata (\<lambda>a. 0)) =
     Some (sample_state smc_pdata (\<lambda>a. 0) \<lparr>trace := [Pr_err ''smc_r5_reset'']\<rparr>) \<and>
   returns_without_effect (sample_state smc_pdata (\<lambda>a. 0))
     (call_rpu (\<lambda>tbl. rpu_ops_en_reset tbl True) (sample_state smc_pdata (\<lambda>a. 0))) \<and>
   returns_without_effect (sample_state smc_pdata (\<lambda>a. 0))
     (call_ipi ipi_ops_trigger (sample_state smc_pdata (\<lambda>a. 0)))"
  using stub_ops_return_without_effect
          [of "sample_state smc_pdata (\<lambda>a. 0)" Rpu_smc_ops Ipi_smc_ops]
  by (simp add: sample_state_def smc_pdata_def call_rpu_def stub_defs)

text \<open>
  C10. For every initial value of the registers and an instance with core index 0 or 1,
  each direct read-modify-write operation changes only its designated bits: a bit of a
  register that differs after \<^verbatim>\<open>hw_r5_boot_dev\<close> is bit 2 (boot source) of the
  selected per-core configuration register; after \<^verbatim>\<open>hw_r5_halt\<close>, bit 0 (run/halt)
  of that register; after \<^verbatim>\<open>hw_r5_reset\<close>, the bit at position core index of the
  reset register; after \<^verbatim>\<open>hw_r5_core_config\<close>, bit 3, 4 or 6 (split mode, clamp,
  TCM combine) of the register at offset 0 of the RPU window.
\<close>

theorem rmw_ops_change_only_designated_bits:
  assumes "unat (rpu_id (pdata s)) < MAX_INSTANCES"
  shows "\<forall>a n.
    (bit (mem (hw_r5_boot_dev s) a) n \<noteq> bit (mem s a) n \<longrightarrow>
       a = reg_addr (rpu_base (pdata s))
             (if rpu_id (pdata s) = 0 then RPU_0_CFG_OFFSET else RPU_1_CFG_OFFSET) \<and>
       n = 2) \<and>
    (\<forall>do_halt. bit (mem (hw_r5_halt do_halt s) a) n \<noteq> bit (mem s a) n \<longrightarrow>
       a = reg_addr (rpu_base (pdata s))
             (if rpu_id (pdata s) = 0 then RPU_0_CFG_OFFSET else RPU_1_CFG_OFFSET) \<and>
       n = 0) \<and>
    (\<forall>do_reset. bit (mem (hw_r5_reset do_reset s) a) n \<noteq> bit (mem s a) n \<longrightarrow>
       a = reg_addr (crl_apb_base (pdata s)) RST_LPD_TOP_OFFSET \<and>
       n = unat (rpu_id (pdata s))) \<and>
    (bit (mem (hw_r5_core_config s) a) n \<noteq> bit (mem s a) n \<longrightarrow>
       a = reg_addr (rpu_base (pdata s)) 0 \<and> n \<in> {3, 4, 6})"
  by (auto simp: hw_r5_boot_dev_eq hw_r5_halt_eq hw_r5_reset_eq hw_r5_core_config_eq Let_def
        or_assign_bit and_not_assign_bit bit_names split: if_splits dest: bit_imp_le_length)

theorem rmw_ops_change_only_designated_bits_witness:
  "unat (rpu_id (pdata (sample_state sample_pdata (\<lambda>a. 0xFFFFFFFF)))) < MAX_INSTANCES \<and>
   bit (mem (hw_r5_boot_dev (sample_state sample_pdata (\<lambda>a. 0xFFFFFFFF))) 0xFF9A0100) 5
     = bit (mem (sample_state sample_pdata (\<lambda>a. 0xFFFFFFFF)) 0xFF9A0100) 5 \<and>
   bit (mem (hw_r5_halt True (sample_state sample_pdata (\<lambda>a. 0xFFFFFFFF))) 0xFF9A0100) 5
     = bit (mem (sample_state sample_pdata (\<lambda>a. 0xFFFFFFFF)) 0xFF9A0100) 5 \<and>
   bit (mem (hw_r5_reset False (sample_state sample_pdata (\<lambda>a. 0xFFFFFFFF))) 0xFF9A0100) 5
     = bit (mem (sample_state sample_pdata (\<lambda>a. 0xFFFFFFFF)) 0xFF9A0100) 5 \<and>
   bit (mem (hw_r5_core_config (sample_state sample_pdata (\<lambda>a. 0xFFFFFFFF))) 0xFF9A0100) 5
     = bit (mem (sample_state sample_pdata (\<lambda>a. 0xFFFFFFFF)) 0xFF9A0100) 5"
proof -
  have h: "unat (rpu_id (pdata (sample_state sample_pdata (\<lambda>a. 0xFFFFFFFF)))) < MAX_INSTANCES"
    by (simp add: sample_state_def sample_pdata_def MAX_INSTANCES_def)
  have addr: "reg_addr (rpu_base (pdata (sample_state sample_pdata (\<lambda>a. 0xFFFFFFFF))))
        (if rpu_id (pdata (sample_state sample_pdata (\<lambda>a. 0xFFFFFFFF))) = 0
         then RPU_0_CFG_OFFSET else RPU_1_CFG_OFFSET) = 0xFF9A0100"
    "reg_addr (crl_apb_base (pdata (sample_state sample_pdata (\<lambda>a. 0xFFFFFFFF))))
        RST_LPD_TOP_OFFSET = 0xFF5E023C"
    "reg_addr (rpu_base (pdata (sample_state sample_pdata (\<lambda>a. 0xFFFFFFFF)))) 0 = 0xFF9A0000"
    by (simp_all add: sample_state_def sample_pdata_def const_defs)
  from rmw_ops_change_only_designated_bits [OF h, THEN spec, of "0xFF9A0100", THEN spec, of 5]
  show ?thesis
    unfolding addr using h by auto
qed

section \<open>Properties of the lifecycle callbacks\<close>

text \<open>
  C2. For every instance on which \<open>start\<close> can run (both operation tables bound, core
  index 0 or 1), \<^verbatim>\<open>zynqmp_r5_rproc_start\<close> returns 0, and the state it leaves is
  the one reached by performing the steps of the specification's list in its order:
  bind the deferred task, flush the data cache, publish the instance under its core
  index, \<open>configureCoreMode\<close>, \<open>setReset(true)\<close>, \<open>setHalt(true)\<close>,
  \<open>setBootDevice\<close>, a delay of 500 microseconds, \<open>setReset(false)\<close>,
  \<open>setHalt(false)\<close>, \<open>resetNotificationChannel\<close>, \<open>programDestinationMask\<close>.
  The state includes the trace, and every step leaves an event there (the binding and
  the publication too), so the steps happen in that order and nothing else happens
  between them. In particular, whatever the backend, what \<open>start\<close> adds to the trace
  begins with the binding, the cache flush and the publication, in this order, before
  any event of a backend operation.
\<close>

theorem start_performs_spec_sequence:
  assumes "rpu_ops (pdata s) = Some t" and "ipi_ops (pdata s) = Some u"
    and "unat (rpu_id (pdata s)) < MAX_INSTANCES"
  shows "zynqmp_r5_rproc_start pdev s = Some (0, spec_run t u pdev spec_start_sequence s) \<and>
    (\<exists>evs. trace (spec_run t u pdev spec_start_sequence s) =
       trace s @
       [Init_work (if rpu_id (pdata s) = 0 then Handle_event0 else Handle_event1),
        Flush_cache_all,
        Set_remoteprocdev (unat (rpu_id (pdata s))) pdev] @ evs)"
proof -
  define s4 where
    "s4 = spec_run t u pdev [Bind_deferred_task, Flush_data_cache, Publish_instance] s"
  have t4: "trace s4 = trace s @
       [Init_work (if rpu_id (pdata s) = 0 then Handle_event0 else Handle_event1),
        Flush_cache_all, Set_remoteprocdev (unat (rpu_id (pdata s))) pdev]"
    by (simp add: s4_def spec_run_def INIT_WORK_def flush_cache_all_def emit_def)
  have run: "spec_run t u pdev spec_start_sequence s =
      ipi_ops_set_mask u (ipi_ops_reset u (rpu_ops_halt t False (rpu_ops_en_reset t False
        (udelay 500 (rpu_ops_bootdev t (rpu_ops_halt t True (rpu_ops_en_reset t True
          (rpu_ops_core_conf t s4))))))))"
    by (simp add: s4_def spec_run_def spec_start_sequence_def)
  have "extends_trace s4 (spec_run t u pdev spec_start_sequence s)"
    unfolding run by (intro extends_trace_step extends_trace_refl)
  then obtain evs where "trace (spec_run t u pdev spec_start_sequence s) = trace s4 @ evs"
    by (auto simp: extends_trace_def)
  then have "\<exists>evs. trace (spec_run t u pdev spec_start_sequence s) =
       trace s @
       [Init_work (if rpu_id (pdata s) = 0 then Handle_event0 else Handle_event1),
        Flush_cache_all,
        Set_remoteprocdev (unat (rpu_id (pdata s))) pdev] @ evs"
    by (simp add: t4)
  moreover have
    "zynqmp_r5_rproc_start pdev s = Some (0, spec_run t u pdev spec_start_sequence s)"
    unfolding start_eq [OF assms]
    by (simp add: spec_run_def spec_start_sequence_def Let_def flush_cache_all_def emit_def
        INIT_WORK_def)
  ultimately show ?thesis by blast
qed

theorem start_performs_spec_sequence_witness:
  "rpu_ops (pdata (sample_state sample_pdata (\<lambda>a. 0))) = Some Rpu_hw_ops \<and>
   ipi_ops (pdata (sample_state sample_pdata (\<lambda>a. 0))) = Some Ipi_hw_ops \<and>
   unat (rpu_id (pdata (sample_state sample_pdata (\<lambda>a. 0)))) < MAX_INSTANCES \<and>
   map_option (\<lambda>(r, s'). (r, trace s', workqueue (pdata s'), remoteprocdev s' 0))
       (zynqmp_r5_rproc_start 7 (sample_state sample_pdata (\<lambda>a. 0))) =
     Some (0,
       [Init_work Handle_event0, Flush_cache_all, Set_remoteprocdev 0 7,
        Reg_read 0xFF9A0000 0, Reg_write 0xFF9A0000 0x50,
        Reg_read 0xFF5E023C 0, Reg_write 0xFF5E023C 1,
        Reg_read 0xFF9A0100 0, Reg_write 0xFF9A0100 0,
        Reg_read 0xFF9A0100 0, Reg_write 0xFF9A0100 0,
        Udelay 500,
        Reg_read 0xFF5E023C 1, Reg_write 0xFF5E023C 0,
        Reg_read 0xFF9A0100 0, Reg_write 0xFF9A0100 1,
        Reg_write 0xFF31001C 0x0F0F0301, Reg_write 0xFF310010 0x0F0F0301, Udelay 10,
        Reg_write 0xFF310018 0x100],
       Some Handle_event0, Some 7)"
  using start_performs_spec_sequence
          [of "sample_state sample_pdata (\<lambda>a. 0)" Rpu_hw_ops Ipi_hw_ops 7]
  by (simp add: spec_run_def spec_start_sequence_def eval_defs)

text \<open>
  The position of the binding and of the publication in the list matters: with both moved
  to the end the run leaves another trace.
\<close>

lemma start_sequence_order_matters:
  "trace (spec_run Rpu_hw_ops Ipi_hw_ops 7
     [Flush_data_cache, Configure_core_mode, Set_reset True, Set_halt True, Set_boot_device,
      Delay 500, Set_reset False, Set_halt False,
      Reset_notification_channel, Program_destination_mask,
      Publish_instance, Bind_deferred_task]
     (sample_state sample_pdata (\<lambda>a. 0)))
   \<noteq> trace (spec_run Rpu_hw_ops Ipi_hw_ops 7 spec_start_sequence
        (sample_state sample_pdata (\<lambda>a. 0)))"
  by (simp add: spec_run_def spec_start_sequence_def eval_defs)

text \<open>
  C3. For a direct instance with core index 0 or 1 over the simulated register store, the
  six registers that \<open>start\<close> and \<open>stop\<close> write being six different addresses, and for
  every initial register state: \<open>start\<close> returns and leaves the core running (out of
  reset, not halted); \<open>stop\<close> then returns and leaves it held in reset and halted, the
  state in which an instance begins. After the round trip the reset register holds what
  it held before with the core's reset bit set, and the per-core configuration register
  holds what it held before with the run bit clear and the boot-source bit as the boot
  memory selects. So for a fresh instance, whose core is held in reset and halted, the
  reset register is exactly as before and the per-core configuration register is as
  before in every bit but the boot-source bit. The global control register holds what
  \<open>configureCoreMode\<close> wrote, the notification enable register the destination mask,
  the disable and status registers the mask \<open>0x0F0F0301\<close>, and every other register
  is untouched.
\<close>

theorem start_then_stop_halted_reset:
  assumes "rpu_ops (pdata s) = Some Rpu_hw_ops" and "ipi_ops (pdata s) = Some Ipi_hw_ops"
    and "unat (rpu_id (pdata s)) < MAX_INSTANCES"
    and "distinct (written_regs (pdata s))"
  shows "\<exists>s1 s2.
     zynqmp_r5_rproc_start pdev s = Some (0, s1) \<and>
     zynqmp_r5_rproc_stop s1 = Some (0, s2) \<and>
     start_then_stop pdev s = Some s2 \<and>
     \<not> in_reset (pdata s) (mem s1) \<and> \<not> halted (pdata s) (mem s1) \<and>
     in_reset (pdata s) (mem s2) \<and> halted (pdata s) (mem s2) \<and>
     (\<forall>n. bit (mem s2 (rst_addr (pdata s))) n \<longleftrightarrow>
            bit (mem s (rst_addr (pdata s))) n \<or> n = unat (rpu_id (pdata s))) \<and>
     (\<forall>n. n \<noteq> 2 \<longrightarrow>
        (bit (mem s2 (cfg_addr (pdata s))) n \<longleftrightarrow>
           bit (mem s (cfg_addr (pdata s))) n \<and> n \<noteq> 0)) \<and>
     (bit (mem s2 (cfg_addr (pdata s))) 2 \<longleftrightarrow> bootmem (pdata s) = OCM) \<and>
     (in_reset (pdata s) (mem s) \<longrightarrow>
        mem s2 (rst_addr (pdata s)) = mem s (rst_addr (pdata s))) \<and>
     (halted (pdata s) (mem s) \<longrightarrow>
        (\<forall>n. n \<noteq> 2 \<longrightarrow>
           bit (mem s2 (cfg_addr (pdata s))) n = bit (mem s (cfg_addr (pdata s))) n)) \<and>
     mem s2 (glb_addr (pdata s)) = mem (hw_r5_core_config s) (glb_addr (pdata s)) \<and>
     mem s2 (ier_addr (pdata s)) = ipi_dest_mask (pdata s) \<and>
     mem s2 (idr_addr (pdata s)) = 0x0F0F0301 \<and>
     mem s2 (isr_addr (pdata s)) = 0x0F0F0301 \<and>
     (\<forall>a. a \<notin> set (written_regs (pdata s)) \<longrightarrow> mem s2 a = mem s a)"
proof -
  define p where "p = pdata s"
  define s1 where "s1 =
    hw_set_ipi_mask (hw_ipi_reset (hw_r5_halt False (hw_r5_reset False (udelay 500
      (hw_r5_boot_dev (hw_r5_halt True (hw_r5_reset True (hw_r5_core_config
        (emit (Set_remoteprocdev (unat (rpu_id (pdata s))) pdev)
          ((flush_cache_all
             (INIT_WORK (if rpu_id (pdata s) = 0 then Handle_event0 else Handle_event1) s))
           \<lparr>remoteprocdev :=
               (remoteprocdev s)(unat (rpu_id (pdata s)) := Some pdev)\<rparr>))))))))))"
  define s2 where "s2 = hw_ipi_reset (hw_r5_halt True (hw_r5_reset True s1))"
  have start: "zynqmp_r5_rproc_start pdev s = Some (0, s1)"
    unfolding s1_def by (rule start_direct [OF assms(1-3)])
  have p1: "pdata s1 = p\<lparr>workqueue :=
      Some (if rpu_id p = 0 then Handle_event0 else Handle_event1)\<rparr>"
    by (simp add: s1_def p_def)
  have stop: "zynqmp_r5_rproc_stop s1 = Some (0, s2)"
    unfolding s2_def by (rule stop_direct) (simp_all add: p1 p_def assms)
  have both: "start_then_stop pdev s = Some s2"
    by (simp add: start_then_stop_def start stop)
  have d: "rst_addr p \<noteq> cfg_addr p" "rst_addr p \<noteq> glb_addr p" "rst_addr p \<noteq> ier_addr p"
    "rst_addr p \<noteq> idr_addr p" "rst_addr p \<noteq> isr_addr p"
    "cfg_addr p \<noteq> glb_addr p" "cfg_addr p \<noteq> ier_addr p" "cfg_addr p \<noteq> idr_addr p"
    "cfg_addr p \<noteq> isr_addr p" "glb_addr p \<noteq> ier_addr p" "glb_addr p \<noteq> idr_addr p"
    "glb_addr p \<noteq> isr_addr p" "ier_addr p \<noteq> idr_addr p" "ier_addr p \<noteq> isr_addr p"
    "idr_addr p \<noteq> isr_addr p"
    using assms(4) by (simp_all add: written_regs_def p_def)
  note d' = d d [symmetric]
  have id: "unat (rpu_id p) < 32"
    using assms(3) by (simp add: p_def MAX_INSTANCES_def)
  have m1_rst: "mem s1 (rst_addr p) =
      and_not_assign (or_assign (mem s (rst_addr p)) (BIT (unat (rpu_id p))))
        (BIT (unat (rpu_id p)))"
    unfolding s1_def by (simp add: mem_hw d' p_def [symmetric])
  have m1_cfg: "mem s1 (cfg_addr p) =
      or_assign
        (if bootmem p = OCM
         then or_assign (and_not_assign (mem s (cfg_addr p)) nCPUHALT_BIT) VINITHI_BIT
         else and_not_assign (and_not_assign (mem s (cfg_addr p)) nCPUHALT_BIT) VINITHI_BIT)
        nCPUHALT_BIT"
    unfolding s1_def by (simp add: mem_hw d' p_def [symmetric])
  have m1_glb: "mem s1 (glb_addr p) = mem (hw_r5_core_config s) (glb_addr p)"
    unfolding s1_def by (simp add: mem_hw d' p_def [symmetric])
  have m1_ier: "mem s1 (ier_addr p) = ipi_dest_mask p"
    unfolding s1_def by (simp add: mem_hw d' p_def [symmetric])
  have m1_other: "mem s1 a = mem s a" if "a \<notin> set (written_regs p)" for a
    using that unfolding s1_def by (simp add: mem_hw written_regs_def p_def [symmetric])
  have m2: "mem s2 a =
      (if a = isr_addr p \<or> a = idr_addr p then IPI_ALL_MASK
       else if a = cfg_addr p then and_not_assign (mem s1 a) nCPUHALT_BIT
       else if a = rst_addr p then or_assign (mem s1 a) (BIT (unat (rpu_id p)))
       else mem s1 a)" for a
    unfolding s2_def by (simp add: mem_hw p1 d')
  have running: "\<not> in_reset p (mem s1)" "\<not> halted p (mem s1)"
    using id by (simp_all add: in_reset_def halted_def m1_rst m1_cfg or_assign_bit
        and_not_assign_bit bit_names)
  have stopped: "in_reset p (mem s2)" "halted p (mem s2)"
    using id by (simp_all add: in_reset_def halted_def m2 d' or_assign_bit
        and_not_assign_bit bit_names)
  have rst: "bit (mem s2 (rst_addr p)) n \<longleftrightarrow>
      bit (mem s (rst_addr p)) n \<or> n = unat (rpu_id p)" for n
    using id by (auto simp: m2 d' m1_rst or_assign_bit and_not_assign_bit
        dest: bit_imp_le_length)
  have cfg: "bit (mem s2 (cfg_addr p)) n \<longleftrightarrow> bit (mem s (cfg_addr p)) n \<and> n \<noteq> 0"
    if "n \<noteq> 2" for n
    using that by (auto simp: m2 d' m1_cfg or_assign_bit and_not_assign_bit bit_names
        dest: bit_imp_le_length)
  have boot: "bit (mem s2 (cfg_addr p)) 2 \<longleftrightarrow> bootmem p = OCM"
    by (simp add: m2 d' m1_cfg or_assign_bit and_not_assign_bit bit_names)
  have rst_same: "mem s2 (rst_addr p) = mem s (rst_addr p)" if "in_reset p (mem s)"
    by (rule bit_word_eqI) (use that rst in \<open>auto simp: in_reset_def\<close>)
  have cfg_same: "bit (mem s2 (cfg_addr p)) n = bit (mem s (cfg_addr p)) n"
    if "halted p (mem s)" and "n \<noteq> 2" for n
    using that cfg [OF that(2)] by (auto simp: halted_def)
  have others: "mem s2 (glb_addr p) = mem (hw_r5_core_config s) (glb_addr p)"
    "mem s2 (ier_addr p) = ipi_dest_mask p"
    "mem s2 (idr_addr p) = 0x0F0F0301" "mem s2 (isr_addr p) = 0x0F0F0301"
    by (simp_all add: m2 d' m1_glb m1_ier IPI_ALL_MASK_def)
  have frame: "mem s2 a = mem s a" if "a \<notin> set (written_regs p)" for a
    using that m1_other [OF that] by (simp add: m2 written_regs_def)
  show ?thesis
    unfolding p_def [symmetric]
    using start stop both running stopped rst cfg boot rst_same cfg_same others frame
    by blast
qed

lemmas sample_addrs = written_regs_def addr_defs sample_state_def sample_pdata_def const_defs

theorem start_then_stop_halted_reset_witness:
  "rpu_ops (pdata (sample_state sample_pdata regs_halted_reset)) = Some Rpu_hw_ops \<and>
   ipi_ops (pdata (sample_state sample_pdata regs_halted_reset)) = Some Ipi_hw_ops \<and>
   unat (rpu_id (pdata (sample_state sample_pdata regs_halted_reset))) < MAX_INSTANCES \<and>
   written_regs sample_pdata =
     [0xFF5E023C, 0xFF9A0100, 0xFF9A0000, 0xFF310018, 0xFF31001C, 0xFF310010] \<and>
   distinct (written_regs sample_pdata) \<and>
   in_reset sample_pdata regs_halted_reset \<and> halted sample_pdata regs_halted_reset \<and>
   map regs_halted_reset (written_regs sample_pdata) = [0x188FDF, 0x0C, 0, 0, 0, 0] \<and>
   map_option (\<lambda>(r, s1). map (mem s1) (written_regs sample_pdata))
       (zynqmp_r5_rproc_start 7 (sample_state sample_pdata regs_halted_reset))
     = Some [0x188FDE, 0x09, 0x50, 0x100, 0x0F0F0301, 0x0F0F0301] \<and>
   map_option (\<lambda>s2. map (mem s2) (written_regs sample_pdata))
       (start_then_stop 7 (sample_state sample_pdata regs_halted_reset))
     = Some [0x188FDF, 0x08, 0x50, 0x100, 0x0F0F0301, 0x0F0F0301] \<and>
   (\<exists>s2. start_then_stop 7 (sample_state sample_pdata regs_halted_reset) = Some s2 \<and>
         in_reset sample_pdata (mem s2) \<and> halted sample_pdata (mem s2) \<and>
         mem s2 (rst_addr sample_pdata) = regs_halted_reset (rst_addr sample_pdata))"
proof -
  have h: "rpu_ops (pdata (sample_state sample_pdata regs_halted_reset)) = Some Rpu_hw_ops"
    "ipi_ops (pdata (sample_state sample_pdata regs_halted_reset)) = Some Ipi_hw_ops"
    "unat (rpu_id (pdata (sample_state sample_pdata regs_halted_reset))) < MAX_INSTANCES"
    "distinct (written_regs (pdata (sample_state sample_pdata regs_halted_reset)))"
    by (simp_all add: sample_addrs)
  have p: "pdata (sample_state sample_pdata regs_halted_reset) = sample_pdata"
    "mem (sample_state sample_pdata regs_halted_reset) = regs_halted_reset"
    by (simp_all add: sample_state_def)
  have regs: "written_regs sample_pdata =
      [0xFF5E023C, 0xFF9A0100, 0xFF9A0000, 0xFF310018, 0xFF31001C, 0xFF310010]"
    by (simp add: sample_addrs)
  have fresh: "in_reset sample_pdata regs_halted_reset" "halted sample_pdata regs_halted_reset"
    "map regs_halted_reset (written_regs sample_pdata) = [0x188FDF, 0x0C, 0, 0, 0, 0]"
    unfolding regs
    by (simp_all add: in_reset_def halted_def regs_halted_reset_def addr_defs sample_pdata_def
        const_defs)
  have eval:
    "map_option (\<lambda>(r, s1). map (mem s1) (written_regs sample_pdata))
       (zynqmp_r5_rproc_start 7 (sample_state sample_pdata regs_halted_reset))
     = Some [0x188FDE, 0x09, 0x50, 0x100, 0x0F0F0301, 0x0F0F0301]"
    "map_option (\<lambda>s2. map (mem s2) (written_regs sample_pdata))
       (start_then_stop 7 (sample_state sample_pdata regs_halted_reset))
     = Some [0x188FDF, 0x08, 0x50, 0x100, 0x0F0F0301, 0x0F0F0301]"
    unfolding regs
    by (simp_all add: start_then_stop_def zynqmp_r5_rproc_start_def zynqmp_r5_rproc_stop_def
        ipi_init_def set_remoteprocdev_def call_rpu_def call_ipi_def dev_dbg_def pr_debug_def
        regs_halted_reset_def eval_defs)
  from start_then_stop_halted_reset [OF h, of 7] fresh(1)
  have "\<exists>s2. start_then_stop 7 (sample_state sample_pdata regs_halted_reset) = Some s2 \<and>
         in_reset sample_pdata (mem s2) \<and> halted sample_pdata (mem s2) \<and>
         mem s2 (rst_addr sample_pdata) = regs_halted_reset (rst_addr sample_pdata)"
    unfolding p by blast
  with h(1-3) h(4) [unfolded p] regs fresh eval show ?thesis
    by blast
qed

text \<open>
  C8. For every host address \<open>kva\<close> (so also for those inside the vring's buffer),
  \<^verbatim>\<open>zynqmp_r5_kva_to_guest_addr_kva\<close> returns the physical-to-virtual image of
  the vring's DMA base plus the offset of \<open>kva\<close> from the vring's host virtual base.
  Where physical-to-virtual is a translation by a constant, as the kernel's linear map
  is, this is the image of the physical address \<open>dma + (kva - va)\<close>. The inverse mapping,
  which takes the offset from the image of the DMA base and adds it to the host virtual
  base, recovers \<open>kva\<close>.
\<close>

theorem kva_to_guest_translation:
  "zynqmp_r5_kva_to_guest_addr_kva phys_to_virt rvring kva
     = phys_to_virt (dma rvring) + (kva - va rvring) \<and>
   ((\<forall>x d. phys_to_virt (x + d) = phys_to_virt x + d) \<longrightarrow>
      zynqmp_r5_kva_to_guest_addr_kva phys_to_virt rvring kva
        = phys_to_virt (dma rvring + (kva - va rvring))) \<and>
   va rvring
     + (zynqmp_r5_kva_to_guest_addr_kva phys_to_virt rvring kva - phys_to_virt (dma rvring))
     = kva"
  by (simp add: zynqmp_r5_kva_to_guest_addr_kva_def)

theorem kva_to_guest_translation_witness:
  "(\<forall>x d. sample_phys_to_virt (x + d) = sample_phys_to_virt x + d) \<and>
   zynqmp_r5_kva_to_guest_addr_kva sample_phys_to_virt sample_vring 0xFFFFFF8000100040
     = 0xFFFFFFC03ED00040 \<and>
   sample_phys_to_virt (0x3ED00000 + (0xFFFFFF8000100040 - 0xFFFFFF8000100000))
     = 0xFFFFFFC03ED00040 \<and>
   0xFFFFFF8000100000 + (0xFFFFFFC03ED00040 - sample_phys_to_virt 0x3ED00000)
     = (0xFFFFFF8000100040 :: addr)"
  using kva_to_guest_translation [of sample_phys_to_virt sample_vring "0xFFFFFF8000100040"]
  by (simp add: sample_phys_to_virt_def sample_vring_def zynqmp_r5_kva_to_guest_addr_kva_def)

section \<open>Properties of the probe\<close>

text \<open>
  C1 says that the probe fails, with an error returned and no register written, whenever
  the core configuration, control method or boot memory string is unrecognized. The
  code does not return an error. Whenever one of the three strings is unrecognized (and
  the instance could be allocated and the vring resource found, so that the strings are
  looked at), \<^verbatim>\<open>zynqmp_r5_remoteproc_probe\<close> returns 0, the value of success; it
  leaves no remote processor allocated and it writes no register.
\<close>

theorem probe_unrecognized_string_returns_0:
  assumes "kzalloc_ok env" and "res_vring0 env = Some res"
    and "unrecognized (prop_core_conf env) [''split0'', ''split1'', ''lock-step''] \<or>
         unrecognized (prop_method env) [''direct'', ''hvc'', ''smc''] \<or>
         unrecognized (prop_bootmem env) [''tcm'', ''ocm'']"
  shows "fst (zynqmp_r5_remoteproc_probe env s) = 0 \<and>
         rproc (pdata (snd (zynqmp_r5_remoteproc_probe env s))) = None \<and>
         mem (snd (zynqmp_r5_remoteproc_probe env s)) = mem s"
proof -
  have "rproc (pdata (snd (zynqmp_r5_remoteproc_probe env s))) = None"
    using assms
    by (simp add: zynqmp_r5_remoteproc_probe_def probe_core_conf_rproc exit_defs Let_def
          zero_pdata_def)
  with probe_ret [OF assms(1,2)] probe_mem show ?thesis by simp
qed

theorem probe_unrecognized_string_returns_0_witness:
  "kzalloc_ok sample_platform \<and> res_vring0 sample_platform = Some (0x3ED00000, 0x3ED03FFF) \<and>
   unrecognized (Some ''split2'') [''split0'', ''split1'', ''lock-step''] \<and>
   unrecognized (Some ''jtag'') [''direct'', ''hvc'', ''smc''] \<and>
   unrecognized (Some ''ddr'') [''tcm'', ''ocm''] \<and>
   fst (zynqmp_r5_remoteproc_probe (sample_platform\<lparr>prop_core_conf := Some ''split2''\<rparr>)
          (sample_state zero_pdata (\<lambda>a. 0))) = 0 \<and>
   fst (zynqmp_r5_remoteproc_probe (sample_platform\<lparr>prop_method := Some ''jtag''\<rparr>)
          (sample_state zero_pdata (\<lambda>a. 0))) = 0 \<and>
   fst (zynqmp_r5_remoteproc_probe (sample_platform\<lparr>prop_bootmem := Some ''ddr''\<rparr>)
          (sample_state zero_pdata (\<lambda>a. 0))) = 0 \<and>
   trace (snd (zynqmp_r5_remoteproc_probe (sample_platform\<lparr>prop_core_conf := Some ''split2''\<rparr>)
          (sample_state zero_pdata (\<lambda>a. 0)))) =
     [Platform_set_drvdata, Dma_declare_coherent_memory, Dma_set_coherent_mask,
      Dev_info ''RPU core_conf'', Dev_err ''Invalid core_conf mode provided'',
      Dma_release_declared_memory]"
  using probe_unrecognized_string_returns_0
          [of "sample_platform\<lparr>prop_core_conf := Some ''split2''\<rparr>" "(0x3ED00000, 0x3ED03FFF)"
              "sample_state zero_pdata (\<lambda>a. 0)"]
        probe_unrecognized_string_returns_0
          [of "sample_platform\<lparr>prop_method := Some ''jtag''\<rparr>" "(0x3ED00000, 0x3ED03FFF)"
              "sample_state zero_pdata (\<lambda>a. 0)"]
        probe_unrecognized_string_returns_0
          [of "sample_platform\<lparr>prop_bootmem := Some ''ddr''\<rparr>" "(0x3ED00000, 0x3ED03FFF)"
              "sample_state zero_pdata (\<lambda>a. 0)"]
  by (simp add: sample_platform_def unrecognized_def zynqmp_r5_remoteproc_probe_def
        probe_core_conf_def exit_defs sample_state_def Let_def)

text \<open>
  C9 says that the probe fails when the interrupt lookup reports failure. On the sample
  platform with \<^verbatim>\<open>platform_get_irq\<close> returning \<open>-6\<close> (\<^verbatim>\<open>-ENXIO\<close>), the
  probe stores the error code in the unsigned \<^verbatim>\<open>vring0\<close> (\<open>0xFFFFFFFA\<close>), does
  not take the branch for a failed lookup (\<^verbatim>\<open>local->vring0 < 0\<close> is never true of
  a \<^verbatim>\<open>u32\<close>), requests interrupt number \<open>0xFFFFFFFA\<close>, and, that request being
  refused, releases the DMA memory and returns 0, the value of success.
\<close>

theorem probe_irq_lookup_failure_returns_0:
  "zynqmp_r5_remoteproc_probe (sample_platform\<lparr>platform_get_irq_ret := - 6\<rparr>)
       (sample_state zero_pdata regs) =
     (0, \<lparr>pdata = sample_pdata\<lparr>rproc := None, ipi_dest_mask := 0, vring0 := 0xFFFFFFFA\<rparr>,
          mem = regs, remoteprocdev = (\<lambda>i. None),
          trace = [Platform_set_drvdata, Dma_declare_coherent_memory, Dma_set_coherent_mask,
                   Dev_info ''RPU core_conf'', Dev_info ''IPI/RPU control method'',
                   Devm_ioremap_resource ''rpu_base'', Devm_ioremap_resource ''apb_base'',
                   Devm_ioremap_resource ''ipi'', Dev_info ''RPU bootmem'',
                   Devm_request_irq 0xFFFFFFFA, Dev_err ''IRQ already allocated'',
                   Dma_release_declared_memory]\<rparr>)"
  by (simp add: zynqmp_r5_remoteproc_probe_def probe_core_conf_def probe_method_def
        probe_windows_def probe_bootmem_def probe_irq_def exit_defs Let_def
        sample_platform_def sample_state_def sample_pdata_def zero_pdata_def)

end
